theory Spec2Isabelle
  imports Main "HOL-Library.Sublist"
begin

section \<open>The WebChannel adapter of nanoclaw\<close>

text \<open>
  The repository holds two implementations of the class \<open>WebChannel\<close>:
  \<^item> \<^verbatim>\<open>src/channels/web.ts\<close>, configured through its constructor options
    (\<open>url\<close>, \<open>secret\<close>); its methods keep their names here;
  \<^item> the \<^verbatim>\<open>web.ts\<close> of the \<^verbatim>\<open>add-claw-chat\<close> skill package (shipped with
    \<^verbatim>\<open>web.test.ts\<close>), configured from \<^verbatim>\<open>.env\<close>; its methods carry the suffix
    \<open>_skill\<close>.
  Strings are \<open>string\<close>. A JavaScript string is a sequence of UTF-16 code units and
  the prefix \<open>web:\<close> is four of them, as it is four characters here:
  \<^verbatim>\<open>jid.slice(4)\<close> is \<open>drop 4\<close> and \<^verbatim>\<open>jid.startsWith('web:')\<close> compares the first
  four characters. The batch a poll receives is read through the declared interface
  \<^verbatim>\<open>PendingResponse\<close>, with the missing arrays and the \<^verbatim>\<open>null\<close> body that the code
  itself provides for.
\<close>

subsection \<open>Data exchanged with the web UI and the host\<close>

record registration =
  reg_conversationId :: string
  reg_name :: string
  reg_folder :: string
  reg_requiresTrigger :: "bool option"

record pending_message =
  msg_id :: string
  msg_conversationId :: string
  msg_senderName :: "string option"
  msg_content :: string
  msg_createdAt :: string

text \<open>
  \<^verbatim>\<open>PendingResponse\<close>: both arrays may be missing (\<open>None\<close>), which the code
  covers with \<^verbatim>\<open>?? []\<close>.
\<close>

record PendingResponse =
  registrations :: "registration list option"
  messages :: "pending_message list option"

record RegisteredGroup =
  grp_name :: string
  grp_folder :: string
  grp_trigger :: string
  grp_requiresTrigger :: bool
  grp_added_at :: string

record NewMessage =
  nm_id :: string
  nm_chat_jid :: string
  nm_sender :: string
  nm_sender_name :: string
  nm_content :: string
  nm_timestamp :: string
  nm_is_from_me :: bool
  nm_is_bot_message :: "bool option"

datatype entry_type = File | Dir

datatype FileEntry = FileEntry string entry_type "FileEntry list option"

datatype container_status = Running | Idle | Failed

text \<open>The JSON bodies the adapter posts, one constructor per endpoint.\<close>

datatype payload =
    Deliver string string string string
  | Typing string bool
  | Ack "string list" "string list"
  | ContainerStatus string container_status "string option"
  | WorkspaceSnapshot string "FileEntry list"

record request =
  req_method :: string
  req_url :: string
  req_content_type :: "string option"
  req_authorization :: string
  req_body :: "payload option"

text \<open>
  What \<^verbatim>\<open>fetch\<close> gives back: it rejects (network error), or it resolves with a
  status and a body. The body is empty, not JSON, the JSON \<^verbatim>\<open>null\<close>, or a JSON
  value read through the interface \<^verbatim>\<open>PendingResponse\<close>.
\<close>

datatype response_body = EmptyBody | NotJson | JsonNull | JsonValue PendingResponse

datatype fetch_result = Rejected | Responded nat response_body

definition ok :: "nat \<Rightarrow> bool" where
  "ok status = (200 \<le> status \<and> status \<le> 299)"

datatype error =
    FetchFailed
  | HttpStatus string string nat
  | SyntaxError
  | TypeError
  | ConfigError string

subsection \<open>The host and the world around the adapter\<close>

text \<open>
  The host owns the registered-groups objects. \<^verbatim>\<open>opts.registeredGroups()\<close> returns
  a reference to one; \<open>objects h a\<close> is what the object at \<open>a\<close> holds in the host
  state \<open>h\<close>, so a reference obtained earlier reads whatever the host has written
  since. The callbacks are taken to return normally.
\<close>

type_synonym groups = "string \<rightharpoonup> RegisteredGroup"

record 'x host_state =
  objects :: "nat \<Rightarrow> groups"
  host_data :: 'x

datatype log_level = Info | Warn

datatype event =
    Fetch request
  | CallOnMessage string NewMessage
  | CallOnChatMetadata string string "string option" string bool
  | CallRegisterGroup string RegisteredGroup
  | Log log_level string
  | SetTimeout nat "int option"
  | ClearTimeout nat

text \<open>
  The world: the host's state, every observable call so far in order, the armed
  timers, and how many times each source of outside values has been read.
\<close>

record 'x world =
  host :: "'x host_state"
  trace :: "event list"
  armed :: "nat set"
  timers_made :: nat
  fetches :: nat
  date_reads :: nat
  uuid_draws :: nat

text \<open>
  The outside values: the result of the k-th \<^verbatim>\<open>fetch\<close>, the k-th reading of
  \<^verbatim>\<open>new Date().toISOString()\<close> and the k-th \<^verbatim>\<open>randomUUID()\<close>.
\<close>

record io =
  fetch :: "nat \<Rightarrow> request \<Rightarrow> fetch_result"
  toISOString :: "nat \<Rightarrow> string"
  uuid :: "nat \<Rightarrow> string"

definition do_fetch :: "io \<Rightarrow> request \<Rightarrow> 'x world \<Rightarrow> fetch_result \<times> 'x world" where
  "do_fetch io req w =
     (fetch io (fetches w) req,
      w\<lparr>trace := trace w @ [Fetch req], fetches := Suc (fetches w)\<rparr>)"

definition new_Date_toISOString :: "io \<Rightarrow> 'x world \<Rightarrow> string \<times> 'x world" where
  "new_Date_toISOString io w =
     (toISOString io (date_reads w), w\<lparr>date_reads := Suc (date_reads w)\<rparr>)"

definition randomUUID :: "io \<Rightarrow> 'x world \<Rightarrow> string \<times> 'x world" where
  "randomUUID io w = (uuid io (uuid_draws w), w\<lparr>uuid_draws := Suc (uuid_draws w)\<rparr>)"

definition logger :: "log_level \<Rightarrow> string \<Rightarrow> 'x world \<Rightarrow> 'x world" where
  "logger lvl msg w = w\<lparr>trace := trace w @ [Log lvl msg]\<rparr>"

definition setTimeout :: "int option \<Rightarrow> 'x world \<Rightarrow> nat \<times> 'x world" where
  "setTimeout delay w =
     (timers_made w,
      w\<lparr>trace := trace w @ [SetTimeout (timers_made w) delay],
        armed := insert (timers_made w) (armed w),
        timers_made := Suc (timers_made w)\<rparr>)"

definition clearTimeout :: "nat \<Rightarrow> 'x world \<Rightarrow> 'x world" where
  "clearTimeout t w = w\<lparr>trace := trace w @ [ClearTimeout t], armed := armed w - {t}\<rparr>"

subsection \<open>The options and the two classes\<close>

record 'x WebChannelOpts_skill =
  onMessage :: "string \<Rightarrow> NewMessage \<Rightarrow> 'x host_state \<Rightarrow> 'x host_state"
  onChatMetadata ::
    "string \<Rightarrow> string \<Rightarrow> string option \<Rightarrow> string \<Rightarrow> bool \<Rightarrow> 'x host_state \<Rightarrow> 'x host_state"
  registeredGroups :: "'x host_state \<Rightarrow> nat"
  registerGroup :: "string \<Rightarrow> RegisteredGroup \<Rightarrow> 'x host_state \<Rightarrow> 'x host_state"

record 'x WebChannelOpts = "'x WebChannelOpts_skill" +
  url :: string
  secret :: string

record 'x WebChannel =
  opts :: "'x WebChannelOpts"
  polling :: bool
  pollTimer :: "nat option"

record 'x WebChannel_skill =
  connected :: bool
  pollTimer_skill :: "nat option"
  baseUrl :: string
  secret_skill :: string
  pollIntervalMs :: "int option"
  opts_skill :: "'x WebChannelOpts_skill"

subsection \<open>HTTP helpers\<close>

text \<open>\<^verbatim>\<open>post\<close> and \<^verbatim>\<open>get\<close> of \<^verbatim>\<open>src/channels/web.ts\<close>.\<close>

definition post ::
  "'x WebChannel \<Rightarrow> io \<Rightarrow> string \<Rightarrow> payload \<Rightarrow> 'x world \<Rightarrow> (error + unit) \<times> 'x world" where
  "post this io path body w =
     (case do_fetch io
         \<lparr>req_method = ''POST'', req_url = url (opts this) @ path,
          req_content_type = Some ''application/json'',
          req_authorization = ''Bearer '' @ secret (opts this),
          req_body = Some body\<rparr> w of
        (Rejected, w') \<Rightarrow> (Inl FetchFailed, w')
      | (Responded status b, w') \<Rightarrow>
          if \<not> ok status then (Inl (HttpStatus ''POST'' path status), w')
          else (Inr (), w'))"

definition get ::
  "'x WebChannel \<Rightarrow> io \<Rightarrow> string \<Rightarrow> 'x world \<Rightarrow> (error + PendingResponse option) \<times> 'x world" where
  "get this io path w =
     (case do_fetch io
         \<lparr>req_method = ''GET'', req_url = url (opts this) @ path,
          req_content_type = None,
          req_authorization = ''Bearer '' @ secret (opts this),
          req_body = None\<rparr> w of
        (Rejected, w') \<Rightarrow> (Inl FetchFailed, w')
      | (Responded status b, w') \<Rightarrow>
          if \<not> ok status then (Inl (HttpStatus ''GET'' path status), w')
          else (case b of
              EmptyBody \<Rightarrow> (Inl SyntaxError, w')
            | NotJson \<Rightarrow> (Inl SyntaxError, w')
            | JsonNull \<Rightarrow> (Inr None, w')
            | JsonValue v \<Rightarrow> (Inr (Some v), w')))"

text \<open>
  \<^verbatim>\<open>request\<close> of the skill package: one helper for both methods; it reads the body
  as text and parses it when it is not empty.
\<close>

definition request_skill ::
  "'x WebChannel_skill \<Rightarrow> io \<Rightarrow> string \<Rightarrow> string \<Rightarrow> payload option \<Rightarrow> 'x world
   \<Rightarrow> (error + PendingResponse option) \<times> 'x world" where
  "request_skill this io method path body w =
     (case do_fetch io
         \<lparr>req_method = method, req_url = baseUrl this @ path,
          req_content_type = Some ''application/json'',
          req_authorization = ''Bearer '' @ secret_skill this,
          req_body = body\<rparr> w of
        (Rejected, w') \<Rightarrow> (Inl FetchFailed, w')
      | (Responded status b, w') \<Rightarrow>
          if \<not> ok status then (Inl (HttpStatus method path status), w')
          else (case b of
              EmptyBody \<Rightarrow> (Inr None, w')
            | NotJson \<Rightarrow> (Inl SyntaxError, w')
            | JsonNull \<Rightarrow> (Inr None, w')
            | JsonValue v \<Rightarrow> (Inr (Some v), w')))"

subsection \<open>Outbound operations\<close>

definition ownsJid :: "string \<Rightarrow> bool" where
  "ownsJid jid = (take 4 jid = ''web:'')"

definition sendMessage ::
  "'x WebChannel \<Rightarrow> io \<Rightarrow> string \<Rightarrow> string \<Rightarrow> 'x world \<Rightarrow> (error + unit) \<times> 'x world" where
  "sendMessage this io jid txt w =
     (let conversationId = drop 4 jid;
          (id, w1) = randomUUID io w;
          (createdAt, w2) = new_Date_toISOString io w1
      in post this io ''/api/internal/deliver'' (Deliver id conversationId txt createdAt) w2)"

definition sendMessage_skill ::
  "'x WebChannel_skill \<Rightarrow> io \<Rightarrow> string \<Rightarrow> string \<Rightarrow> 'x world \<Rightarrow> (error + unit) \<times> 'x world" where
  "sendMessage_skill this io jid txt w =
     (let conversationId = drop 4 jid;
          (id, w1) = randomUUID io w;
          (createdAt, w2) = new_Date_toISOString io w1
      in case request_skill this io ''POST'' ''/api/internal/deliver''
                (Some (Deliver id conversationId txt createdAt)) w2 of
           (Inr _, w3) \<Rightarrow> (Inr (), logger Info ''WebChannel message delivered'' w3)
         | (Inl err, w3) \<Rightarrow>
             (Inr (), logger Warn ''WebChannel failed to deliver message to claw-chat'' w3))"

definition setTyping ::
  "'x WebChannel \<Rightarrow> io \<Rightarrow> string \<Rightarrow> bool \<Rightarrow> 'x world \<Rightarrow> (error + unit) \<times> 'x world" where
  "setTyping this io jid isTyping w =
     (let conversationId = drop 4 jid
      in case post this io ''/api/internal/typing'' (Typing conversationId isTyping) w of
           (Inr _, w1) \<Rightarrow> (Inr (), w1)
         | (Inl err, w1) \<Rightarrow> (Inr (), logger Warn ''WebChannel: failed to set typing'' w1))"

definition setTyping_skill ::
  "'x WebChannel_skill \<Rightarrow> io \<Rightarrow> string \<Rightarrow> bool \<Rightarrow> 'x world \<Rightarrow> (error + unit) \<times> 'x world" where
  "setTyping_skill this io jid isTyping w =
     (let conversationId = drop 4 jid
      in case request_skill this io ''POST'' ''/api/internal/typing''
                (Some (Typing conversationId isTyping)) w of
           (Inr _, w1) \<Rightarrow> (Inr (), w1)
         | (Inl err, w1) \<Rightarrow> (Inr (), w1))"

text \<open>
  The two extension operations exist in \<^verbatim>\<open>src/channels/web.ts\<close> only. The optional
  \<^verbatim>\<open>error\<close> goes into the body when it is a non-empty string.
\<close>

definition pushContainerStatus ::
  "'x WebChannel \<Rightarrow> io \<Rightarrow> string \<Rightarrow> container_status \<Rightarrow> string option \<Rightarrow> 'x world
   \<Rightarrow> (error + unit) \<times> 'x world" where
  "pushContainerStatus this io jid status err w =
     (if \<not> (take 4 jid = ''web:'') then (Inr (), w)
      else
        let conversationId = drop 4 jid;
            body = ContainerStatus conversationId status
                     (case err of None \<Rightarrow> None | Some e \<Rightarrow> if e = [] then None else Some e)
        in case post this io ''/api/internal/container-status'' body w of
             (Inr _, w1) \<Rightarrow> (Inr (), w1)
           | (Inl e, w1) \<Rightarrow>
               (Inr (), logger Warn ''WebChannel: failed to push container status'' w1))"

definition pushWorkspaceSnapshot ::
  "'x WebChannel \<Rightarrow> io \<Rightarrow> string \<Rightarrow> FileEntry list \<Rightarrow> 'x world \<Rightarrow> (error + unit) \<times> 'x world" where
  "pushWorkspaceSnapshot this io jid tree w =
     (if \<not> (take 4 jid = ''web:'') then (Inr (), w)
      else
        let conversationId = drop 4 jid
        in case post this io ''/api/internal/workspace-snapshot''
                  (WorkspaceSnapshot conversationId tree) w of
             (Inr _, w1) \<Rightarrow> (Inr (), w1)
           | (Inl e, w1) \<Rightarrow>
               (Inr (), logger Warn ''WebChannel: failed to push workspace snapshot'' w1))"

subsection \<open>Construction\<close>

text \<open>
  \<^verbatim>\<open>src/channels/web.ts\<close>: \<^verbatim>\<open>constructor(private opts: WebChannelOpts) {}\<close>; the
  fields start as declared.
\<close>

definition constructor :: "'x WebChannelOpts \<Rightarrow> error + 'x WebChannel" where
  "constructor os = Inr \<lparr>opts = os, polling = False, pollTimer = None\<rparr>"

text \<open>
  The skill package reads its configuration itself. \<open>env\<close> is what
  \<^verbatim>\<open>readEnvFile\<close> returned and \<open>process_env\<close> is \<^verbatim>\<open>process.env\<close>; \<open>js_or a b\<close> is
  \<^verbatim>\<open>a || b\<close> for a possibly undefined string \<open>a\<close>. \<open>parseInt10\<close> is
  \<^verbatim>\<open>parseInt(s, 10)\<close> on ASCII input, \<open>None\<close> for \<^verbatim>\<open>NaN\<close>.
\<close>

definition js_or :: "string option \<Rightarrow> string \<Rightarrow> string" where
  "js_or a b = (case a of None \<Rightarrow> b | Some s \<Rightarrow> if s = [] then b else s)"

definition strip_trailing_slash :: "string \<Rightarrow> string" where
  "strip_trailing_slash s = (if s \<noteq> [] \<and> last s = CHR ''/'' then butlast s else s)"

definition is_space :: "char \<Rightarrow> bool" where
  "is_space c = (c \<in> set [CHR '' '', CHR 0x09, CHR 0x0A, CHR 0x0B, CHR 0x0C, CHR 0x0D])"

definition is_digit :: "char \<Rightarrow> bool" where
  "is_digit c = (c \<in> set ''0123456789'')"

definition digits_value :: "string \<Rightarrow> nat" where
  "digits_value ds = foldl (\<lambda>a c. 10 * a + (of_char c - 48)) 0 ds"

definition parseInt10 :: "string \<Rightarrow> int option" where
  "parseInt10 s =
     (let s1 = dropWhile is_space s;
          neg = (s1 \<noteq> [] \<and> hd s1 = CHR ''-'');
          s2 = (if s1 \<noteq> [] \<and> (hd s1 = CHR ''-'' \<or> hd s1 = CHR ''+'') then tl s1 else s1);
          ds = takeWhile is_digit s2
      in if ds = [] then None
         else Some (if neg then - int (digits_value ds) else int (digits_value ds)))"

definition constructor_skill ::
  "'x WebChannelOpts_skill \<Rightarrow> (string \<rightharpoonup> string) \<Rightarrow> (string \<rightharpoonup> string)
   \<Rightarrow> error + 'x WebChannel_skill" where
  "constructor_skill os env process_env =
     (let baseUrl' = strip_trailing_slash
            (js_or (env ''WEBUI_URL'') (js_or (process_env ''WEBUI_URL'') ''http://localhost:3000''));
          secret' = js_or (env ''WEBUI_INTERNAL_SECRET'')
            (js_or (process_env ''WEBUI_INTERNAL_SECRET'') []);
          pollIntervalMs' = parseInt10
            (js_or (env ''WEBUI_POLL_INTERVAL_MS'')
               (js_or (process_env ''WEBUI_POLL_INTERVAL_MS'') ''2000''))
      in if secret' = [] then Inl (ConfigError ''WEBUI_INTERNAL_SECRET must be set in .env'')
         else Inr \<lparr>connected = False, pollTimer_skill = None, baseUrl = baseUrl',
                   secret_skill = secret', pollIntervalMs = pollIntervalMs',
                   opts_skill = os\<rparr>)"

subsection \<open>Connecting, disconnecting, scheduling\<close>

definition schedulePoll :: "'x WebChannel \<Rightarrow> 'x world \<Rightarrow> 'x WebChannel \<times> 'x world" where
  "schedulePoll this w =
     (if \<not> polling this then (this, w)
      else let (t, w1) = setTimeout (Some 2000) w in (this\<lparr>pollTimer := Some t\<rparr>, w1))"

definition connect ::
  "'x WebChannel \<Rightarrow> 'x world \<Rightarrow> (error + unit) \<times> 'x WebChannel \<times> 'x world" where
  "connect this w =
     (let this1 = this\<lparr>polling := True\<rparr>;
          (this2, w1) = schedulePoll this1 w
      in (Inr (), this2, logger Info ''WebChannel started polling'' w1))"

definition isConnected :: "'x WebChannel \<Rightarrow> bool" where
  "isConnected this = polling this"

definition disconnect ::
  "'x WebChannel \<Rightarrow> 'x world \<Rightarrow> (error + unit) \<times> 'x WebChannel \<times> 'x world" where
  "disconnect this w =
     (let this1 = this\<lparr>polling := False\<rparr>
      in case pollTimer this1 of
           Some t \<Rightarrow> (Inr (), this1\<lparr>pollTimer := None\<rparr>, clearTimeout t w)
         | None \<Rightarrow> (Inr (), this1, w))"

definition schedulePoll_skill ::
  "'x WebChannel_skill \<Rightarrow> 'x world \<Rightarrow> 'x WebChannel_skill \<times> 'x world" where
  "schedulePoll_skill this w =
     (if \<not> connected this then (this, w)
      else let (t, w1) = setTimeout (pollIntervalMs this) w
           in (this\<lparr>pollTimer_skill := Some t\<rparr>, w1))"

definition connect_skill ::
  "'x WebChannel_skill \<Rightarrow> io \<Rightarrow> 'x world
   \<Rightarrow> (error + unit) \<times> 'x WebChannel_skill \<times> 'x world" where
  "connect_skill this io w =
     (let w1 = (case request_skill this io ''GET'' ''/api/health'' None w of
                  (Inr _, w') \<Rightarrow> logger Info ''WebChannel connected to claw-chat'' w'
                | (Inl err, w') \<Rightarrow>
                    logger Warn ''claw-chat not reachable at startup, will retry on next poll'' w');
          this1 = this\<lparr>connected := True\<rparr>;
          (this2, w2) = schedulePoll_skill this1 w1
      in (Inr (), this2, w2))"

definition isConnected_skill :: "'x WebChannel_skill \<Rightarrow> bool" where
  "isConnected_skill this = connected this"

definition disconnect_skill ::
  "'x WebChannel_skill \<Rightarrow> 'x world \<Rightarrow> (error + unit) \<times> 'x WebChannel_skill \<times> 'x world" where
  "disconnect_skill this w =
     (let this1 = this\<lparr>connected := False\<rparr>;
          (this2, w1) = (case pollTimer_skill this1 of
                           Some t \<Rightarrow> (this1\<lparr>pollTimer_skill := None\<rparr>, clearTimeout t w)
                         | None \<Rightarrow> (this1, w))
      in (Inr (), this2, logger Info ''WebChannel disconnected'' w1))"

subsection \<open>Calling the host\<close>

definition call_onMessage ::
  "('x, 'z) WebChannelOpts_skill_scheme \<Rightarrow> string \<Rightarrow> NewMessage \<Rightarrow> 'x world \<Rightarrow> 'x world" where
  "call_onMessage os jid m w =
     w\<lparr>host := onMessage os jid m (host w), trace := trace w @ [CallOnMessage jid m]\<rparr>"

definition call_onChatMetadata ::
  "('x, 'z) WebChannelOpts_skill_scheme \<Rightarrow> string \<Rightarrow> string \<Rightarrow> string option \<Rightarrow> string \<Rightarrow> bool
   \<Rightarrow> 'x world \<Rightarrow> 'x world" where
  "call_onChatMetadata os jid ts nm channel isGroup w =
     w\<lparr>host := onChatMetadata os jid ts nm channel isGroup (host w),
       trace := trace w @ [CallOnChatMetadata jid ts nm channel isGroup]\<rparr>"

definition call_registerGroup ::
  "('x, 'z) WebChannelOpts_skill_scheme \<Rightarrow> string \<Rightarrow> RegisteredGroup \<Rightarrow> 'x world \<Rightarrow> 'x world" where
  "call_registerGroup os jid g w =
     w\<lparr>host := registerGroup os jid g (host w), trace := trace w @ [CallRegisterGroup jid g]\<rparr>"

subsection \<open>The poll cycle of \<^verbatim>\<open>src/channels/web.ts\<close>\<close>

text \<open>
  The first loop asks \<^verbatim>\<open>this.opts.registeredGroups()\<close> anew for every registration;
  the second loop hands every message to the host.
\<close>

fun poll_registrations ::
  "'x WebChannelOpts \<Rightarrow> io \<Rightarrow> registration list \<Rightarrow> string list \<Rightarrow> 'x world
   \<Rightarrow> string list \<times> 'x world" where
  "poll_registrations os io [] newConversationIds w = (newConversationIds, w)"
| "poll_registrations os io (reg # regs) newConversationIds w =
     (let jid = ''web:'' @ reg_conversationId reg;
          w' = (if objects (host w) (registeredGroups os (host w)) jid = None then
                  (let (ts, w1) = new_Date_toISOString io w;
                       w2 = call_onChatMetadata os jid ts (Some (reg_name reg)) ''web'' False w1;
                       (added, w3) = new_Date_toISOString io w2;
                       w4 = call_registerGroup os jid
                              \<lparr>grp_name = reg_name reg, grp_folder = reg_folder reg,
                               grp_trigger = [], grp_requiresTrigger = False,
                               grp_added_at = added\<rparr> w3
                   in logger Info ''WebChannel: registered conversation'' w4)
                else w)
      in poll_registrations os io regs (newConversationIds @ [reg_conversationId reg]) w')"

fun poll_messages ::
  "'x WebChannelOpts \<Rightarrow> pending_message list \<Rightarrow> string list \<Rightarrow> 'x world
   \<Rightarrow> string list \<times> 'x world" where
  "poll_messages os [] newMessageIds w = (newMessageIds, w)"
| "poll_messages os (msg # msgs) newMessageIds w =
     (let jid = ''web:'' @ msg_conversationId msg;
          newMsg = \<lparr>nm_id = msg_id msg, nm_chat_jid = jid, nm_sender = ''user@'' @ jid,
                    nm_sender_name = (case msg_senderName msg of None \<Rightarrow> ''User'' | Some s \<Rightarrow> s),
                    nm_content = msg_content msg, nm_timestamp = msg_createdAt msg,
                    nm_is_from_me = False, nm_is_bot_message = None\<rparr>;
          w1 = call_onMessage os jid newMsg w
      in poll_messages os msgs (newMessageIds @ [msg_id msg]) w1)"

text \<open>
  The \<^verbatim>\<open>try\<close> block: an error of \<^verbatim>\<open>get\<close> or \<^verbatim>\<open>post\<close>, or reading
  \<^verbatim>\<open>data.registrations\<close> of \<^verbatim>\<open>null\<close>, leaves it at once.
\<close>

definition poll_try :: "'x WebChannel \<Rightarrow> io \<Rightarrow> 'x world \<Rightarrow> (error + unit) \<times> 'x world" where
  "poll_try this io w =
     (case get this io ''/api/internal/pending'' w of
        (Inl err, w1) \<Rightarrow> (Inl err, w1)
      | (Inr None, w1) \<Rightarrow> (Inl TypeError, w1)
      | (Inr (Some data), w1) \<Rightarrow>
          (let (newConversationIds, w2) =
                 poll_registrations (opts this) io
                   (case registrations data of None \<Rightarrow> [] | Some rs \<Rightarrow> rs) [] w1;
               (newMessageIds, w3) =
                 poll_messages (opts this)
                   (case messages data of None \<Rightarrow> [] | Some ms \<Rightarrow> ms) [] w2
           in if newConversationIds \<noteq> [] \<or> newMessageIds \<noteq> [] then
                post this io ''/api/internal/ack'' (Ack newConversationIds newMessageIds) w3
              else (Inr (), w3)))"

text \<open>\<^verbatim>\<open>poll\<close>: the \<^verbatim>\<open>try\<close> block, the \<^verbatim>\<open>catch\<close> that logs, the \<^verbatim>\<open>finally\<close> that reschedules.\<close>

definition poll ::
  "'x WebChannel \<Rightarrow> io \<Rightarrow> 'x world \<Rightarrow> (error + unit) \<times> 'x WebChannel \<times> 'x world" where
  "poll this io w =
     (let (r, w1) = poll_try this io w;
          w2 = (case r of Inl err \<Rightarrow> logger Warn ''WebChannel: poll error'' w1 | Inr _ \<Rightarrow> w1);
          (this1, w3) = schedulePoll this w2
      in (Inr (), this1, w3))"

subsection \<open>The poll cycle of the skill package\<close>

text \<open>
  \<open>registeredGroups\<close> below is the reference obtained once before the first loop,
  \<open>currentGroups\<close> the one obtained again before the second; each test reads the
  referenced object as the host holds it at that moment.
\<close>

fun poll_registrations_skill ::
  "'x WebChannelOpts_skill \<Rightarrow> io \<Rightarrow> nat \<Rightarrow> registration list \<Rightarrow> string list \<Rightarrow> 'x world
   \<Rightarrow> string list \<times> 'x world" where
  "poll_registrations_skill os io registeredGroups' [] ackedConversationIds w =
     (ackedConversationIds, w)"
| "poll_registrations_skill os io registeredGroups' (reg # regs) ackedConversationIds w =
     (let jid = ''web:'' @ reg_conversationId reg;
          w' = (if objects (host w) registeredGroups' jid = None then
                  (let (added, w1) = new_Date_toISOString io w;
                       w2 = call_registerGroup os jid
                              \<lparr>grp_name = reg_name reg, grp_folder = reg_folder reg,
                               grp_trigger = reg_folder reg, grp_requiresTrigger = False,
                               grp_added_at = added\<rparr> w1
                   in logger Info ''WebChannel registered conversation'' w2)
                else w)
      in poll_registrations_skill os io registeredGroups' regs
           (ackedConversationIds @ [reg_conversationId reg]) w')"

fun poll_messages_skill ::
  "'x WebChannelOpts_skill \<Rightarrow> nat \<Rightarrow> pending_message list \<Rightarrow> string list \<Rightarrow> 'x world
   \<Rightarrow> string list \<times> 'x world" where
  "poll_messages_skill os currentGroups [] ackedMessageIds w = (ackedMessageIds, w)"
| "poll_messages_skill os currentGroups (msg # msgs) ackedMessageIds w =
     (let jid = ''web:'' @ msg_conversationId msg
      in if objects (host w) currentGroups jid = None then
           poll_messages_skill os currentGroups msgs ackedMessageIds
             (logger Warn ''WebChannel: message for unregistered conversation, skipping'' w)
         else
           (let timestamp = msg_createdAt msg;
                w1 = call_onChatMetadata os jid timestamp None ''web'' False w;
                w2 = call_onMessage os jid
                       \<lparr>nm_id = msg_id msg, nm_chat_jid = jid,
                        nm_sender = msg_conversationId msg,
                        nm_sender_name = js_or (msg_senderName msg) ''You'',
                        nm_content = msg_content msg, nm_timestamp = timestamp,
                        nm_is_from_me = False, nm_is_bot_message = Some False\<rparr> w1
            in poll_messages_skill os currentGroups msgs (ackedMessageIds @ [msg_id msg]) w2))"

definition poll_skill ::
  "'x WebChannel_skill \<Rightarrow> io \<Rightarrow> 'x world \<Rightarrow> (error + unit) \<times> 'x world" where
  "poll_skill this io w =
     (case request_skill this io ''GET'' ''/api/internal/pending'' None w of
        (Inl err, w1) \<Rightarrow>
          (Inr (), logger Warn ''WebChannel /pending poll failed, retrying next cycle'' w1)
      | (Inr None, w1) \<Rightarrow> (Inl TypeError, w1)
      | (Inr (Some data), w1) \<Rightarrow>
          (let registeredGroups' = registeredGroups (opts_skill this) (host w1);
               (ackedConversationIds, w2) =
                 poll_registrations_skill (opts_skill this) io registeredGroups'
                   (case registrations data of None \<Rightarrow> [] | Some rs \<Rightarrow> rs) [] w1;
               currentGroups = registeredGroups (opts_skill this) (host w2);
               (ackedMessageIds, w3) =
                 poll_messages_skill (opts_skill this) currentGroups
                   (case messages data of None \<Rightarrow> [] | Some ms \<Rightarrow> ms) [] w2
           in if ackedMessageIds \<noteq> [] \<or> ackedConversationIds \<noteq> [] then
                (case request_skill this io ''POST'' ''/api/internal/ack''
                        (Some (Ack ackedConversationIds ackedMessageIds)) w3 of
                   (Inr _, w4) \<Rightarrow> (Inr (), w4)
                 | (Inl err, w4) \<Rightarrow>
                     (Inr (), logger Warn
                        ''WebChannel ack failed - items may be redelivered on next poll'' w4))
              else (Inr (), w3)))"

text \<open>
  What the timer runs in the skill package:
  \<^verbatim>\<open>this.poll().catch(log).finally(() => this.schedulePoll())\<close>.
\<close>

definition timer_callback_skill ::
  "'x WebChannel_skill \<Rightarrow> io \<Rightarrow> 'x world
   \<Rightarrow> (error + unit) \<times> 'x WebChannel_skill \<times> 'x world" where
  "timer_callback_skill this io w =
     (let (r, w1) = poll_skill this io w;
          w2 = (case r of Inl err \<Rightarrow> logger Warn ''WebChannel poll error'' w1 | Inr _ \<Rightarrow> w1);
          (this1, w3) = schedulePoll_skill this w2
      in (Inr (), this1, w3))"

subsection \<open>Reading a trace\<close>

definition requests_of :: "event list \<Rightarrow> request list" where
  "requests_of evs = concat (map (\<lambda>e. case e of Fetch r \<Rightarrow> [r] | _ \<Rightarrow> []) evs)"

definition calls_onMessage :: "event list \<Rightarrow> (string \<times> NewMessage) list" where
  "calls_onMessage evs =
     concat (map (\<lambda>e. case e of CallOnMessage j m \<Rightarrow> [(j, m)] | _ \<Rightarrow> []) evs)"

definition host_calls :: "event list \<Rightarrow> event list" where
  "host_calls evs =
     filter (\<lambda>e. case e of CallOnMessage j m \<Rightarrow> True | CallOnChatMetadata j ts n c g \<Rightarrow> True
                 | CallRegisterGroup j g \<Rightarrow> True | _ \<Rightarrow> False) evs"

definition batch_registrations :: "PendingResponse \<Rightarrow> registration list" where
  "batch_registrations data = (case registrations data of None \<Rightarrow> [] | Some rs \<Rightarrow> rs)"

definition batch_messages :: "PendingResponse \<Rightarrow> pending_message list" where
  "batch_messages data = (case messages data of None \<Rightarrow> [] | Some ms \<Rightarrow> ms)"

text \<open>The requests the two classes build, and the message records they hand over.\<close>

definition post_request :: "'x WebChannel \<Rightarrow> string \<Rightarrow> payload \<Rightarrow> request" where
  "post_request this path body =
     \<lparr>req_method = ''POST'', req_url = url (opts this) @ path,
      req_content_type = Some ''application/json'',
      req_authorization = ''Bearer '' @ secret (opts this), req_body = Some body\<rparr>"

definition pending_request :: "'x WebChannel \<Rightarrow> request" where
  "pending_request this =
     \<lparr>req_method = ''GET'', req_url = url (opts this) @ ''/api/internal/pending'',
      req_content_type = None,
      req_authorization = ''Bearer '' @ secret (opts this), req_body = None\<rparr>"

definition request_of_skill ::
  "'x WebChannel_skill \<Rightarrow> string \<Rightarrow> string \<Rightarrow> payload option \<Rightarrow> request" where
  "request_of_skill this method path body =
     \<lparr>req_method = method, req_url = baseUrl this @ path,
      req_content_type = Some ''application/json'',
      req_authorization = ''Bearer '' @ secret_skill this, req_body = body\<rparr>"

definition pending_request_skill :: "'x WebChannel_skill \<Rightarrow> request" where
  "pending_request_skill this = request_of_skill this ''GET'' ''/api/internal/pending'' None"

definition forwarded :: "pending_message \<Rightarrow> string \<times> NewMessage" where
  "forwarded msg =
     (''web:'' @ msg_conversationId msg,
      \<lparr>nm_id = msg_id msg, nm_chat_jid = ''web:'' @ msg_conversationId msg,
       nm_sender = ''user@web:'' @ msg_conversationId msg,
       nm_sender_name = (case msg_senderName msg of None \<Rightarrow> ''User'' | Some s \<Rightarrow> s),
       nm_content = msg_content msg, nm_timestamp = msg_createdAt msg,
       nm_is_from_me = False, nm_is_bot_message = None\<rparr>)"

definition forwarded_skill :: "pending_message \<Rightarrow> string \<times> NewMessage" where
  "forwarded_skill msg =
     (''web:'' @ msg_conversationId msg,
      \<lparr>nm_id = msg_id msg, nm_chat_jid = ''web:'' @ msg_conversationId msg,
       nm_sender = msg_conversationId msg,
       nm_sender_name = js_or (msg_senderName msg) ''You'',
       nm_content = msg_content msg, nm_timestamp = msg_createdAt msg,
       nm_is_from_me = False, nm_is_bot_message = Some False\<rparr>)"

text \<open>
  The shape of \<^verbatim>\<open>Date.prototype.toISOString\<close> for a four-digit year:
  \<^verbatim>\<open>YYYY-MM-DDTHH:mm:ss.sssZ\<close>.
\<close>

definition well_formed_timestamp :: "string \<Rightarrow> bool" where
  "well_formed_timestamp s =
     (map (\<lambda>c. if is_digit c then CHR ''0'' else c) s = ''0000-00-00T00:00:00.000Z'')"

subsection \<open>Concrete hosts, batches and responses\<close>

text \<open>
  The inputs of \<^verbatim>\<open>web.test.ts\<close>: a host whose callbacks do nothing and whose registry is
  the object at address 0 (\<^verbatim>\<open>makeOpts\<close>), and, beside it, a host whose
  \<^verbatim>\<open>registerGroup\<close> writes the group into that object, as a host that returns its own
  live registry does.
\<close>

definition opts_mock :: "unit WebChannelOpts_skill" where
  "opts_mock =
     \<lparr>onMessage = (\<lambda>jid m h. h), onChatMetadata = (\<lambda>jid ts n c g h. h),
      registeredGroups = (\<lambda>h. 0), registerGroup = (\<lambda>jid g h. h)\<rparr>"

definition opts_live :: "unit WebChannelOpts_skill" where
  "opts_live =
     \<lparr>onMessage = (\<lambda>jid m h. h), onChatMetadata = (\<lambda>jid ts n c g h. h),
      registeredGroups = (\<lambda>h. 0),
      registerGroup = (\<lambda>jid g h. h\<lparr>objects := (objects h)(0 := (objects h 0)(jid \<mapsto> g))\<rparr>)\<rparr>"

definition with_url :: "unit WebChannelOpts_skill \<Rightarrow> string \<Rightarrow> string \<Rightarrow> unit WebChannelOpts" where
  "with_url os u s =
     \<lparr>onMessage = onMessage os, onChatMetadata = onChatMetadata os,
      registeredGroups = registeredGroups os, registerGroup = registerGroup os,
      url = u, secret = s\<rparr>"

definition channel_test :: "unit WebChannelOpts_skill \<Rightarrow> unit WebChannel" where
  "channel_test os =
     \<lparr>opts = with_url os ''http://localhost:3000'' ''test-secret-abc'',
      polling = False, pollTimer = None\<rparr>"

definition channel_skill_test :: "unit WebChannelOpts_skill \<Rightarrow> unit WebChannel_skill" where
  "channel_skill_test os =
     \<lparr>connected = False, pollTimer_skill = None, baseUrl = ''http://localhost:3000'',
      secret_skill = ''test-secret-abc'', pollIntervalMs = Some 50, opts_skill = os\<rparr>"

definition group_main :: RegisteredGroup where
  "group_main =
     \<lparr>grp_name = ''Main'', grp_folder = ''web-conv-abc'', grp_trigger = ''web-conv-abc'',
      grp_requiresTrigger = False, grp_added_at = ''2026-02-27T09:00:00.000Z''\<rparr>"

definition host_empty :: "unit host_state" where
  "host_empty = \<lparr>objects = (\<lambda>a. Map.empty), host_data = ()\<rparr>"

definition host_main :: "unit host_state" where
  "host_main = \<lparr>objects = (\<lambda>a. [''web:conv-abc'' \<mapsto> group_main]), host_data = ()\<rparr>"

definition world_of :: "unit host_state \<Rightarrow> unit world" where
  "world_of h =
     \<lparr>host = h, trace = [], armed = {}, timers_made = 0, fetches = 0, date_reads = 0,
      uuid_draws = 0\<rparr>"

definition reg_abc :: registration where
  "reg_abc =
     \<lparr>reg_conversationId = ''conv-abc'', reg_name = ''Main'', reg_folder = ''web-conv-abc'',
      reg_requiresTrigger = None\<rparr>"

definition msg_abc :: pending_message where
  "msg_abc =
     \<lparr>msg_id = ''msg-1'', msg_conversationId = ''conv-abc'', msg_senderName = Some ''You'',
      msg_content = ''Hello agent'', msg_createdAt = ''2026-02-27T10:00:00.000Z''\<rparr>"

definition msg_unknown :: pending_message where
  "msg_unknown =
     \<lparr>msg_id = ''msg-2'', msg_conversationId = ''unknown-conv'', msg_senderName = Some ''You'',
      msg_content = ''Hello'', msg_createdAt = ''2026-02-27T10:00:00.000Z''\<rparr>"

definition batch :: "registration list \<Rightarrow> pending_message list \<Rightarrow> PendingResponse" where
  "batch rs ms = \<lparr>registrations = Some rs, messages = Some ms\<rparr>"

text \<open>
  \<^verbatim>\<open>makeFetchMock\<close>: the pending endpoint answers with the given status and batch, every
  other endpoint with the given status and an empty body; the clock and the UUID source
  are fixed.
\<close>

definition io_test :: "nat \<Rightarrow> PendingResponse \<Rightarrow> nat \<Rightarrow> io" where
  "io_test pending_status data other_status =
     \<lparr>fetch = (\<lambda>k req. if req_method req = ''GET'' then Responded pending_status (JsonValue data)
                         else Responded other_status EmptyBody),
      toISOString = (\<lambda>k. ''2026-02-27T10:00:00.000Z''),
      uuid = (\<lambda>k. ''550e8400-e29b-41d4-a716-446655440000'')\<rparr>"

definition io_offline :: io where
  "io_offline =
     \<lparr>fetch = (\<lambda>k req. Rejected),
      toISOString = (\<lambda>k. ''2026-02-27T10:00:00.000Z''),
      uuid = (\<lambda>k. ''550e8400-e29b-41d4-a716-446655440000'')\<rparr>"

text \<open>
  What Node promises of \<^verbatim>\<open>randomUUID\<close> and \<^verbatim>\<open>toISOString\<close>: an identifier that is
  not empty, a timestamp of the ISO shape.
\<close>

definition node_io :: "io \<Rightarrow> bool" where
  "node_io io = (\<forall>k. uuid io k \<noteq> [] \<and> well_formed_timestamp (toISOString io k))"

text \<open>A configuration value that is unset or empty; a \<^verbatim>\<open>fetch\<close> that failed.\<close>

definition absent :: "string option \<Rightarrow> bool" where
  "absent v = (v = None \<or> v = Some [])"

definition failed :: "fetch_result \<Rightarrow> bool" where
  "failed r = (case r of Rejected \<Rightarrow> True | Responded status b \<Rightarrow> \<not> ok status)"

text \<open>What \<^verbatim>\<open>readEnvFile\<close> returns in \<^verbatim>\<open>web.test.ts\<close>.\<close>

definition env_test :: "string \<rightharpoonup> string" where
  "env_test =
     [''WEBUI_URL'' \<mapsto> ''http://localhost:3000'',
      ''WEBUI_INTERNAL_SECRET'' \<mapsto> ''test-secret-abc'',
      ''WEBUI_POLL_INTERVAL_MS'' \<mapsto> ''50'']"

definition reg_new :: registration where
  "reg_new =
     \<lparr>reg_conversationId = ''conv-new'', reg_name = ''New'', reg_folder = ''web-conv-new'',
      reg_requiresTrigger = None\<rparr>"

subsection \<open>The adapter on the event loop\<close>

text \<open>
  A method of either class runs on Node's event loop without interruption up to an
  \<^verbatim>\<open>await\<close> of a \<^verbatim>\<open>fetch\<close>, and resumes when that \<^verbatim>\<open>fetch\<close> settles; in between, the
  host may call the adapter and timers may fire. \<open>waiting\<close> is what an unfinished call
  waits for, with the result its \<^verbatim>\<open>fetch\<close> settles to. Reading the body of a response
  (\<^verbatim>\<open>res.json()\<close>, \<^verbatim>\<open>res.text()\<close>) is taken to settle together with the \<^verbatim>\<open>fetch\<close>.
\<close>

datatype waiting = AwaitHealth fetch_result | AwaitPending fetch_result | AwaitAck fetch_result

record ('a, 'x) system =
  adapter :: 'a
  wld :: "'x world"
  in_flight :: "waiting list"

text \<open>
  What can happen next: the host calls \<^verbatim>\<open>connect()\<close> or \<^verbatim>\<open>disconnect()\<close>, an armed timer
  fires, or the \<^verbatim>\<open>fetch\<close> of the n-th unfinished call settles.
\<close>

datatype action = Connect | Disconnect | TimerFires nat | Settles nat

definition remove_nth :: "nat \<Rightarrow> 'a list \<Rightarrow> 'a list" where
  "remove_nth n xs = take n xs @ drop (Suc n) xs"

text \<open>
  \<^verbatim>\<open>src/channels/web.ts\<close>. What \<^verbatim>\<open>get\<close> and \<^verbatim>\<open>post\<close> do with a settled \<^verbatim>\<open>fetch\<close>; the
  \<^verbatim>\<open>catch\<close> and \<^verbatim>\<open>finally\<close> of \<^verbatim>\<open>poll\<close>; \<^verbatim>\<open>poll\<close> from the settling of its \<^verbatim>\<open>get\<close> to
  its end or to the \<^verbatim>\<open>fetch\<close> of its \<^verbatim>\<open>post\<close>; \<^verbatim>\<open>poll\<close> from the settling of its
  \<^verbatim>\<open>post\<close>. \<^verbatim>\<open>this.polling\<close> is read when \<^verbatim>\<open>schedulePoll\<close> runs, so each part takes the
  adapter as it is when the part runs.
\<close>

definition get_settled :: "string \<Rightarrow> fetch_result \<Rightarrow> error + PendingResponse option" where
  "get_settled path r =
     (case r of
        Rejected \<Rightarrow> Inl FetchFailed
      | Responded status b \<Rightarrow>
          if \<not> ok status then Inl (HttpStatus ''GET'' path status)
          else (case b of
              EmptyBody \<Rightarrow> Inl SyntaxError
            | NotJson \<Rightarrow> Inl SyntaxError
            | JsonNull \<Rightarrow> Inr None
            | JsonValue v \<Rightarrow> Inr (Some v)))"

definition post_settled :: "string \<Rightarrow> fetch_result \<Rightarrow> error + unit" where
  "post_settled path r =
     (case r of
        Rejected \<Rightarrow> Inl FetchFailed
      | Responded status b \<Rightarrow>
          if \<not> ok status then Inl (HttpStatus ''POST'' path status) else Inr ())"

definition poll_catch_finally ::
  "'x WebChannel \<Rightarrow> error + unit \<Rightarrow> 'x world \<Rightarrow> 'x WebChannel \<times> 'x world" where
  "poll_catch_finally this r w =
     schedulePoll this
       (case r of Inl err \<Rightarrow> logger Warn ''WebChannel: poll error'' w | Inr _ \<Rightarrow> w)"

definition poll_after_get ::
  "'x WebChannel \<Rightarrow> io \<Rightarrow> fetch_result \<Rightarrow> 'x world
   \<Rightarrow> waiting option \<times> 'x WebChannel \<times> 'x world" where
  "poll_after_get this io r w1 =
     (case get_settled ''/api/internal/pending'' r of
        Inl err \<Rightarrow> (None, poll_catch_finally this (Inl err) w1)
      | Inr None \<Rightarrow> (None, poll_catch_finally this (Inl TypeError) w1)
      | Inr (Some data) \<Rightarrow>
          (let (newConversationIds, w2) =
                 poll_registrations (opts this) io
                   (case registrations data of None \<Rightarrow> [] | Some rs \<Rightarrow> rs) [] w1;
               (newMessageIds, w3) =
                 poll_messages (opts this)
                   (case messages data of None \<Rightarrow> [] | Some ms \<Rightarrow> ms) [] w2
           in if newConversationIds \<noteq> [] \<or> newMessageIds \<noteq> [] then
                (let (r', w4) =
                       do_fetch io
                         (post_request this ''/api/internal/ack''
                            (Ack newConversationIds newMessageIds)) w3
                 in (Some (AwaitAck r'), this, w4))
              else (None, poll_catch_finally this (Inr ()) w3)))"

definition poll_after_post ::
  "'x WebChannel \<Rightarrow> fetch_result \<Rightarrow> 'x world \<Rightarrow> 'x WebChannel \<times> 'x world" where
  "poll_after_post this r w = poll_catch_finally this (post_settled ''/api/internal/ack'' r) w"

text \<open>
  One step of \<^verbatim>\<open>src/channels/web.ts\<close>. \<^verbatim>\<open>connect\<close> and \<^verbatim>\<open>disconnect\<close> await nothing and
  run in one piece. A firing timer is no longer armed (the field \<^verbatim>\<open>pollTimer\<close> keeps its
  handle) and starts \<^verbatim>\<open>poll\<close>, which runs up to the \<^verbatim>\<open>fetch\<close> of its \<^verbatim>\<open>get\<close>. A step that
  cannot happen (a timer that is not armed, a call that is not waiting) gives \<open>None\<close>.
\<close>

fun step ::
  "io \<Rightarrow> ('x WebChannel, 'x) system \<Rightarrow> action \<Rightarrow> ('x WebChannel, 'x) system option" where
  "step io s Connect =
     (let (r, this1, w1) = connect (adapter s) (wld s)
      in Some (s\<lparr>adapter := this1, wld := w1\<rparr>))"
| "step io s Disconnect =
     (let (r, this1, w1) = disconnect (adapter s) (wld s)
      in Some (s\<lparr>adapter := this1, wld := w1\<rparr>))"
| "step io s (TimerFires t) =
     (if t \<in> armed (wld s) then
        (let w0 = (wld s)\<lparr>armed := armed (wld s) - {t}\<rparr>;
             (r, w1) = do_fetch io (pending_request (adapter s)) w0
         in Some (s\<lparr>wld := w1, in_flight := in_flight s @ [AwaitPending r]\<rparr>))
      else None)"
| "step io s (Settles n) =
     (if n < length (in_flight s) then
        (case in_flight s ! n of
           AwaitHealth r \<Rightarrow> None
         | AwaitPending r \<Rightarrow>
             (let (nxt, this1, w1) = poll_after_get (adapter s) io r (wld s)
              in Some (s\<lparr>adapter := this1, wld := w1,
                         in_flight := (case nxt of
                                         None \<Rightarrow> remove_nth n (in_flight s)
                                       | Some x \<Rightarrow> (in_flight s)[n := x])\<rparr>))
         | AwaitAck r \<Rightarrow>
             (let (this1, w1) = poll_after_post (adapter s) r (wld s)
              in Some (s\<lparr>adapter := this1, wld := w1,
                         in_flight := remove_nth n (in_flight s)\<rparr>)))
      else None)"

fun run ::
  "io \<Rightarrow> ('x WebChannel, 'x) system \<Rightarrow> action list
   \<Rightarrow> ('x WebChannel, 'x) system option" where
  "run io s [] = Some s"
| "run io s (a # as) = (case step io s a of None \<Rightarrow> None | Some s' \<Rightarrow> run io s' as)"

text \<open>
  The skill package. What \<^verbatim>\<open>request\<close> does with a settled \<^verbatim>\<open>fetch\<close>; \<^verbatim>\<open>connect\<close> from the
  settling of its health probe: the log line, \<^verbatim>\<open>this.connected = true\<close>,
  \<^verbatim>\<open>this.schedulePoll()\<close>; the \<^verbatim>\<open>.catch\<close> and \<^verbatim>\<open>.finally\<close> of the timer callback; \<^verbatim>\<open>poll\<close>
  from the settling of its first \<^verbatim>\<open>request\<close> and from the settling of its second.
\<close>

definition request_settled ::
  "string \<Rightarrow> string \<Rightarrow> fetch_result \<Rightarrow> error + PendingResponse option" where
  "request_settled method path r =
     (case r of
        Rejected \<Rightarrow> Inl FetchFailed
      | Responded status b \<Rightarrow>
          if \<not> ok status then Inl (HttpStatus method path status)
          else (case b of
              EmptyBody \<Rightarrow> Inr None
            | NotJson \<Rightarrow> Inl SyntaxError
            | JsonNull \<Rightarrow> Inr None
            | JsonValue v \<Rightarrow> Inr (Some v)))"

definition connect_after_request ::
  "'x WebChannel_skill \<Rightarrow> fetch_result \<Rightarrow> 'x world \<Rightarrow> 'x WebChannel_skill \<times> 'x world" where
  "connect_after_request this r w =
     (let w1 = (case request_settled ''GET'' ''/api/health'' r of
                  Inr _ \<Rightarrow> logger Info ''WebChannel connected to claw-chat'' w
                | Inl err \<Rightarrow>
                    logger Warn ''claw-chat not reachable at startup, will retry on next poll'' w);
          this1 = this\<lparr>connected := True\<rparr>
      in schedulePoll_skill this1 w1)"

definition timer_catch_finally ::
  "'x WebChannel_skill \<Rightarrow> error + unit \<Rightarrow> 'x world \<Rightarrow> 'x WebChannel_skill \<times> 'x world" where
  "timer_catch_finally this r w =
     schedulePoll_skill this
       (case r of Inl err \<Rightarrow> logger Warn ''WebChannel poll error'' w | Inr _ \<Rightarrow> w)"

definition poll_after_pending_skill ::
  "'x WebChannel_skill \<Rightarrow> io \<Rightarrow> fetch_result \<Rightarrow> 'x world
   \<Rightarrow> waiting option \<times> 'x WebChannel_skill \<times> 'x world" where
  "poll_after_pending_skill this io r w1 =
     (case request_settled ''GET'' ''/api/internal/pending'' r of
        Inl err \<Rightarrow>
          (None, timer_catch_finally this (Inr ())
                   (logger Warn ''WebChannel /pending poll failed, retrying next cycle'' w1))
      | Inr None \<Rightarrow> (None, timer_catch_finally this (Inl TypeError) w1)
      | Inr (Some data) \<Rightarrow>
          (let registeredGroups' = registeredGroups (opts_skill this) (host w1);
               (ackedConversationIds, w2) =
                 poll_registrations_skill (opts_skill this) io registeredGroups'
                   (case registrations data of None \<Rightarrow> [] | Some rs \<Rightarrow> rs) [] w1;
               currentGroups = registeredGroups (opts_skill this) (host w2);
               (ackedMessageIds, w3) =
                 poll_messages_skill (opts_skill this) currentGroups
                   (case messages data of None \<Rightarrow> [] | Some ms \<Rightarrow> ms) [] w2
           in if ackedMessageIds \<noteq> [] \<or> ackedConversationIds \<noteq> [] then
                (let (r', w4) =
                       do_fetch io
                         (request_of_skill this ''POST'' ''/api/internal/ack''
                            (Some (Ack ackedConversationIds ackedMessageIds))) w3
                 in (Some (AwaitAck r'), this, w4))
              else (None, timer_catch_finally this (Inr ()) w3)))"

definition poll_after_ack_skill ::
  "'x WebChannel_skill \<Rightarrow> fetch_result \<Rightarrow> 'x world \<Rightarrow> 'x WebChannel_skill \<times> 'x world" where
  "poll_after_ack_skill this r w =
     timer_catch_finally this (Inr ())
       (case request_settled ''POST'' ''/api/internal/ack'' r of
          Inr _ \<Rightarrow> w
        | Inl err \<Rightarrow>
            logger Warn ''WebChannel ack failed - items may be redelivered on next poll'' w)"

text \<open>
  One step of the skill package. \<^verbatim>\<open>connect\<close> runs up to the \<^verbatim>\<open>fetch\<close> of its health probe
  and does the rest when the probe settles; \<^verbatim>\<open>disconnect\<close> awaits nothing.
\<close>

fun step_skill ::
  "io \<Rightarrow> ('x WebChannel_skill, 'x) system \<Rightarrow> action
   \<Rightarrow> ('x WebChannel_skill, 'x) system option" where
  "step_skill io s Connect =
     (let (r, w1) = do_fetch io (request_of_skill (adapter s) ''GET'' ''/api/health'' None) (wld s)
      in Some (s\<lparr>wld := w1, in_flight := in_flight s @ [AwaitHealth r]\<rparr>))"
| "step_skill io s Disconnect =
     (let (r, this1, w1) = disconnect_skill (adapter s) (wld s)
      in Some (s\<lparr>adapter := this1, wld := w1\<rparr>))"
| "step_skill io s (TimerFires t) =
     (if t \<in> armed (wld s) then
        (let w0 = (wld s)\<lparr>armed := armed (wld s) - {t}\<rparr>;
             (r, w1) = do_fetch io (pending_request_skill (adapter s)) w0
         in Some (s\<lparr>wld := w1, in_flight := in_flight s @ [AwaitPending r]\<rparr>))
      else None)"
| "step_skill io s (Settles n) =
     (if n < length (in_flight s) then
        (case in_flight s ! n of
           AwaitHealth r \<Rightarrow>
             (let (this1, w1) = connect_after_request (adapter s) r (wld s)
              in Some (s\<lparr>adapter := this1, wld := w1,
                         in_flight := remove_nth n (in_flight s)\<rparr>))
         | AwaitPending r \<Rightarrow>
             (let (nxt, this1, w1) = poll_after_pending_skill (adapter s) io r (wld s)
              in Some (s\<lparr>adapter := this1, wld := w1,
                         in_flight := (case nxt of
                                         None \<Rightarrow> remove_nth n (in_flight s)
                                       | Some x \<Rightarrow> (in_flight s)[n := x])\<rparr>))
         | AwaitAck r \<Rightarrow>
             (let (this1, w1) = poll_after_ack_skill (adapter s) r (wld s)
              in Some (s\<lparr>adapter := this1, wld := w1,
                         in_flight := remove_nth n (in_flight s)\<rparr>)))
      else None)"

fun run_skill ::
  "io \<Rightarrow> ('x WebChannel_skill, 'x) system \<Rightarrow> action list
   \<Rightarrow> ('x WebChannel_skill, 'x) system option" where
  "run_skill io s [] = Some s"
| "run_skill io s (a # as) =
     (case step_skill io s a of None \<Rightarrow> None | Some s' \<Rightarrow> run_skill io s' as)"

text \<open>
  A web UI that is down for the first \<^verbatim>\<open>fetch\<close> and answers like \<open>io_test 200 data 204\<close>
  from the second on; an adapter that has just been constructed, in a host.
\<close>

definition io_recovering :: "PendingResponse \<Rightarrow> io" where
  "io_recovering data =
     \<lparr>fetch = (\<lambda>k req. if k = 0 then Rejected
                       else if req_method req = ''GET'' then Responded 200 (JsonValue data)
                       else Responded 204 EmptyBody),
      toISOString = (\<lambda>k. ''2026-02-27T10:00:00.000Z''),
      uuid = (\<lambda>k. ''550e8400-e29b-41d4-a716-446655440000'')\<rparr>"

definition system_of :: "'a \<Rightarrow> unit host_state \<Rightarrow> ('a, unit) system" where
  "system_of this h = \<lparr>adapter = this, wld = world_of h, in_flight = []\<rparr>"

text \<open>What an observer of a run sees: the flag, the timer field, the armed timers.\<close>

definition observe :: "('x WebChannel, 'x) system \<Rightarrow> bool \<times> nat option \<times> nat set" where
  "observe s = (isConnected (adapter s), pollTimer (adapter s), armed (wld s))"

definition observe_skill ::
  "('x WebChannel_skill, 'x) system \<Rightarrow> bool \<times> nat option \<times> nat set" where
  "observe_skill s =
     (isConnected_skill (adapter s), pollTimer_skill (adapter s), armed (wld s))"

section \<open>Properties\<close>

subsection \<open>Reading traces\<close>

lemma requests_of_simps [simp]:
  "requests_of [] = []"
  "requests_of (xs @ ys) = requests_of xs @ requests_of ys"
  "requests_of (Fetch r # xs) = r # requests_of xs"
  "requests_of (Log l s # xs) = requests_of xs"
  "requests_of (CallOnMessage j nm # xs) = requests_of xs"
  "requests_of (CallOnChatMetadata j ts n c g # xs) = requests_of xs"
  "requests_of (CallRegisterGroup j rg # xs) = requests_of xs"
  "requests_of (SetTimeout h d # xs) = requests_of xs"
  "requests_of (ClearTimeout h # xs) = requests_of xs"
  by (simp_all add: requests_of_def)

lemma calls_onMessage_simps [simp]:
  "calls_onMessage [] = []"
  "calls_onMessage (xs @ ys) = calls_onMessage xs @ calls_onMessage ys"
  "calls_onMessage (Fetch r # xs) = calls_onMessage xs"
  "calls_onMessage (Log l s # xs) = calls_onMessage xs"
  "calls_onMessage (CallOnMessage j nm # xs) = (j, nm) # calls_onMessage xs"
  "calls_onMessage (CallOnChatMetadata j ts n c g # xs) = calls_onMessage xs"
  "calls_onMessage (CallRegisterGroup j rg # xs) = calls_onMessage xs"
  "calls_onMessage (SetTimeout h d # xs) = calls_onMessage xs"
  "calls_onMessage (ClearTimeout h # xs) = calls_onMessage xs"
  by (simp_all add: calls_onMessage_def)

lemma host_calls_simps [simp]:
  "host_calls [] = []"
  "host_calls (xs @ ys) = host_calls xs @ host_calls ys"
  "host_calls (Fetch r # xs) = host_calls xs"
  "host_calls (Log l s # xs) = host_calls xs"
  "host_calls (CallOnMessage j nm # xs) = CallOnMessage j nm # host_calls xs"
  "host_calls (CallOnChatMetadata j ts n c g # xs) =
     CallOnChatMetadata j ts n c g # host_calls xs"
  "host_calls (CallRegisterGroup j rg # xs) = CallRegisterGroup j rg # host_calls xs"
  "host_calls (SetTimeout h d # xs) = host_calls xs"
  "host_calls (ClearTimeout h # xs) = host_calls xs"
  by (simp_all add: host_calls_def)

lemmas world_ops =
  call_onMessage_def call_onChatMetadata_def call_registerGroup_def logger_def
  new_Date_toISOString_def randomUUID_def do_fetch_def

subsection \<open>The namespace test\<close>

lemma take_eq_iff_prefix: "length p = n \<Longrightarrow> (take n s = p) = prefix p s"
proof
  assume "length p = n" "take n s = p"
  then show "prefix p s" by (metis take_is_prefix)
next
  assume "length p = n" "prefix p s"
  then show "take n s = p" by (auto simp: prefix_def)
qed

text \<open>
  C9. \<open>ownsJid\<close> is a function of the identifier alone (it takes neither the adapter
  nor the world), and it is true exactly of the strings that start with \<open>web:\<close>: an
  identifier with another prefix, or with none, is not owned. The two classes have the
  same method.
\<close>

theorem ownsJid_iff_web_prefix: "ownsJid jid = prefix ''web:'' jid"
  unfolding ownsJid_def by (rule take_eq_iff_prefix) simp

subsection \<open>Outbound operations\<close>

lemma post_requests:
  "requests_of (trace (snd (post this io path body w))) =
     requests_of (trace w) @ [post_request this path body]"
  by (simp add: post_def post_request_def do_fetch_def split: fetch_result.splits)

lemma request_skill_requests:
  "requests_of (trace (snd (request_skill this io m p b w))) =
     requests_of (trace w) @ [request_of_skill this m p b]"
  by (simp add: request_skill_def request_of_skill_def do_fetch_def
      split: fetch_result.splits response_body.splits)

lemma sendMessage_requests:
  "requests_of (trace (snd (sendMessage this io jid txt w))) =
     requests_of (trace w) @
       [post_request this ''/api/internal/deliver''
          (Deliver (uuid io (uuid_draws w)) (drop 4 jid) txt (toISOString io (date_reads w)))]"
  by (simp add: sendMessage_def post_requests randomUUID_def new_Date_toISOString_def)

lemma sendMessage_skill_requests:
  "requests_of (trace (snd (sendMessage_skill this io jid txt w))) =
     requests_of (trace w) @
       [request_of_skill this ''POST'' ''/api/internal/deliver''
          (Some (Deliver (uuid io (uuid_draws w)) (drop 4 jid) txt
             (toISOString io (date_reads w))))]"
proof -
  let ?w2 = "snd (new_Date_toISOString io (snd (randomUUID io w)))"
  let ?b = "Some (Deliver (uuid io (uuid_draws w)) (drop 4 jid) txt
              (toISOString io (date_reads w)))"
  obtain r w3 where r: "request_skill this io ''POST'' ''/api/internal/deliver'' ?b ?w2 = (r, w3)"
    by fastforce
  have "requests_of (trace w3) =
          requests_of (trace ?w2) @ [request_of_skill this ''POST'' ''/api/internal/deliver'' ?b]"
    using request_skill_requests[of this io "''POST''" "''/api/internal/deliver''" ?b ?w2] r
    by simp
  then show ?thesis using r
    by (cases r)
      (simp_all add: sendMessage_skill_def randomUUID_def new_Date_toISOString_def logger_def)
qed

lemma sendMessage_uuid_draws:
  "uuid_draws (snd (sendMessage this io jid txt w)) = Suc (uuid_draws w)"
  by (simp add: sendMessage_def post_def do_fetch_def randomUUID_def new_Date_toISOString_def
      Let_def split: fetch_result.splits)

lemma sendMessage_skill_uuid_draws:
  "uuid_draws (snd (sendMessage_skill this io jid txt w)) = Suc (uuid_draws w)"
  by (simp add: sendMessage_skill_def request_skill_def do_fetch_def randomUUID_def
      new_Date_toISOString_def logger_def Let_def
      split: fetch_result.splits response_body.splits)

lemma sendMessage_skill_resolves: "fst (sendMessage_skill this io jid txt w) = Inr ()"
  by (simp add: sendMessage_skill_def Let_def split: prod.splits sum.splits)

lemma setTyping_requests:
  "requests_of (trace (snd (setTyping this io jid b w))) =
     requests_of (trace w) @ [post_request this ''/api/internal/typing'' (Typing (drop 4 jid) b)]"
proof -
  obtain r w1 where r: "post this io ''/api/internal/typing'' (Typing (drop 4 jid) b) w = (r, w1)"
    by fastforce
  then show ?thesis
    using post_requests[of this io "''/api/internal/typing''" "Typing (drop 4 jid) b" w]
    by (cases r) (simp_all add: setTyping_def logger_def)
qed

text \<open>
  C7. For a jid \<open>web:X\<close>, \<open>sendMessage\<close> of either class issues exactly one request, a
  POST to the deliver endpoint, whose body carries \<open>X\<close> as conversationId, the text as
  content, the identifier that \<^verbatim>\<open>randomUUID\<close> returns at this call and the timestamp
  the clock gives at this call; the call uses up that draw, so no later call sends the
  same draw again. The identifier is not empty and the timestamp is well formed as far
  as Node's two functions keep their promise.
\<close>

theorem sendMessage_posts_one_delivery:
  assumes "node_io io"
  shows "\<exists>id createdAt.
           id \<noteq> [] \<and> well_formed_timestamp createdAt \<and>
           id = uuid io (uuid_draws w) \<and> createdAt = toISOString io (date_reads w) \<and>
           requests_of (trace (snd (sendMessage this io (''web:'' @ X) txt w))) =
             requests_of (trace w) @
               [post_request this ''/api/internal/deliver'' (Deliver id X txt createdAt)] \<and>
           requests_of (trace (snd (sendMessage_skill this' io (''web:'' @ X) txt w))) =
             requests_of (trace w) @
               [request_of_skill this' ''POST'' ''/api/internal/deliver''
                  (Some (Deliver id X txt createdAt))] \<and>
           uuid_draws (snd (sendMessage this io (''web:'' @ X) txt w)) = Suc (uuid_draws w) \<and>
           uuid_draws (snd (sendMessage_skill this' io (''web:'' @ X) txt w)) =
             Suc (uuid_draws w)"
  using assms
  by (simp add: node_io_def sendMessage_requests sendMessage_skill_requests
      sendMessage_uuid_draws sendMessage_skill_uuid_draws)

theorem sendMessage_posts_one_delivery_witness:
  "node_io (io_test 200 (batch [] []) 201) \<and>
   requests_of (trace (snd (sendMessage (channel_test opts_mock) (io_test 200 (batch [] []) 201)
      ''web:conv-123'' ''Hello from agent'' (world_of host_empty)))) =
     [\<lparr>req_method = ''POST'', req_url = ''http://localhost:3000/api/internal/deliver'',
       req_content_type = Some ''application/json'',
       req_authorization = ''Bearer test-secret-abc'',
       req_body = Some (Deliver ''550e8400-e29b-41d4-a716-446655440000'' ''conv-123''
                          ''Hello from agent'' ''2026-02-27T10:00:00.000Z'')\<rparr>] \<and>
   requests_of (trace (snd (sendMessage_skill (channel_skill_test opts_mock)
      (io_test 200 (batch [] []) 201) ''web:conv-123'' ''Hello from agent''
      (world_of host_empty)))) =
     [\<lparr>req_method = ''POST'', req_url = ''http://localhost:3000/api/internal/deliver'',
       req_content_type = Some ''application/json'',
       req_authorization = ''Bearer test-secret-abc'',
       req_body = Some (Deliver ''550e8400-e29b-41d4-a716-446655440000'' ''conv-123''
                          ''Hello from agent'' ''2026-02-27T10:00:00.000Z'')\<rparr>]"
proof -
  have h: "node_io (io_test 200 (batch [] []) 201)"
    by (simp add: node_io_def io_test_def well_formed_timestamp_def is_digit_def)
  from sendMessage_posts_one_delivery [OF h, of "world_of host_empty"
      "channel_test opts_mock" "''conv-123''" "''Hello from agent''"
      "channel_skill_test opts_mock"]
  show ?thesis using h
    by (simp add: io_test_def world_of_def post_request_def request_of_skill_def
        channel_test_def channel_skill_test_def with_url_def)
qed

text \<open>
  C2. \<open>sendMessage\<close> of the skill package resolves whatever \<^verbatim>\<open>fetch\<close> does: the
  failure is caught and logged. \<open>sendMessage\<close> of \<^verbatim>\<open>src/channels/web.ts\<close> has no
  \<^verbatim>\<open>catch\<close>: when the deliver endpoint answers 500 the error of \<open>post\<close> reaches the
  caller.
\<close>

theorem sendMessage_rejects_on_http_error:
  "fst (sendMessage_skill this' io jid txt w) = Inr () \<and>
   fst (sendMessage (channel_test opts_mock) (io_test 200 (batch [] []) 500)
          ''web:conv-123'' ''hello'' (world_of host_empty)) =
     Inl (HttpStatus ''POST'' ''/api/internal/deliver'' 500)"
  by (simp add: sendMessage_skill_resolves sendMessage_def post_def do_fetch_def
      randomUUID_def new_Date_toISOString_def io_test_def ok_def world_of_def)

text \<open>
  C10. For a jid that does not start with \<open>web:\<close>, \<open>pushContainerStatus\<close> and
  \<open>pushWorkspaceSnapshot\<close> return at once: no request, no log line, no error, the world
  as it was. \<open>sendMessage\<close> and \<open>setTyping\<close> of the same class do not look at the prefix
  and post for that jid all the same.
\<close>

theorem push_operations_ignore_foreign_jid:
  assumes "\<not> ownsJid jid"
  shows "pushContainerStatus this io jid status err w = (Inr (), w) \<and>
         pushWorkspaceSnapshot this io jid tree w = (Inr (), w) \<and>
         requests_of (trace (snd (sendMessage this io jid txt w))) =
           requests_of (trace w) @
             [post_request this ''/api/internal/deliver''
                (Deliver (uuid io (uuid_draws w)) (drop 4 jid) txt
                   (toISOString io (date_reads w)))] \<and>
         requests_of (trace (snd (setTyping this io jid isTyping w))) =
           requests_of (trace w) @
             [post_request this ''/api/internal/typing'' (Typing (drop 4 jid) isTyping)]"
  using assms
  by (simp add: ownsJid_def pushContainerStatus_def pushWorkspaceSnapshot_def
      sendMessage_requests setTyping_requests)

theorem push_operations_ignore_foreign_jid_witness:
  "\<not> ownsJid ''slack:C123456'' \<and>
   pushContainerStatus (channel_test opts_mock) io_offline ''slack:C123456'' Running None
     (world_of host_empty) = (Inr (), world_of host_empty) \<and>
   pushWorkspaceSnapshot (channel_test opts_mock) io_offline ''slack:C123456''
     [FileEntry ''notes.md'' File None] (world_of host_empty) = (Inr (), world_of host_empty)"
proof -
  have h: "\<not> ownsJid ''slack:C123456''" by (simp add: ownsJid_def)
  from push_operations_ignore_foreign_jid [OF h, where this = "channel_test opts_mock"
      and io = io_offline and w = "world_of host_empty" and status = Running and err = None
      and tree = "[FileEntry ''notes.md'' File None]"]
  show ?thesis using h by simp
qed

subsection \<open>Construction and what reaches the host\<close>

lemma js_or_empty: "js_or a b = [] \<longleftrightarrow> absent a \<and> b = []"
  by (auto simp: js_or_def absent_def split: option.splits)

lemma constructor_skill_fails:
  "absent (env ''WEBUI_INTERNAL_SECRET'') \<Longrightarrow> absent (penv ''WEBUI_INTERNAL_SECRET'') \<Longrightarrow>
   constructor_skill os env penv =
     Inl (ConfigError ''WEBUI_INTERNAL_SECRET must be set in .env'')"
  by (simp add: constructor_skill_def Let_def js_or_empty)

lemma constructor_skill_succeeds:
  "\<not> (absent (env ''WEBUI_INTERNAL_SECRET'') \<and> absent (penv ''WEBUI_INTERNAL_SECRET'')) \<Longrightarrow>
   \<exists>c. constructor_skill os env penv = Inr c \<and> secret_skill c \<noteq> []"
  by (simp add: constructor_skill_def Let_def js_or_empty)

lemma setTyping_skill_resolves: "fst (setTyping_skill this io jid b w) = Inr ()"
  by (simp add: setTyping_skill_def Let_def split: prod.splits sum.splits)

lemma connect_skill_resolves: "fst (connect_skill this io w) = Inr ()"
  by (simp add: connect_skill_def Let_def split: prod.splits sum.splits)

lemma disconnect_skill_resolves: "fst (disconnect_skill this w) = Inr ()"
  by (simp add: disconnect_skill_def Let_def split: prod.splits option.splits)

lemma timer_callback_skill_resolves: "fst (timer_callback_skill this io w) = Inr ()"
  by (simp add: timer_callback_skill_def Let_def split: prod.splits sum.splits)

text \<open>
  C3, as the code has it. The constructor of the skill package fails with the
  configuration error, and gives no instance, exactly when the secret is unset or empty
  both in the \<^verbatim>\<open>.env\<close> values and in \<^verbatim>\<open>process.env\<close>; otherwise it gives an instance
  with a non-empty secret. No operation the host calls on that class, and not the
  callback its timer runs, raises. The constructor of \<^verbatim>\<open>src/channels/web.ts\<close> stores
  the options it is given and never fails.
\<close>

theorem constructor_fails_only_in_skill_package:
  "(absent (env ''WEBUI_INTERNAL_SECRET'') \<and> absent (penv ''WEBUI_INTERNAL_SECRET'') \<longrightarrow>
      constructor_skill os env penv =
        Inl (ConfigError ''WEBUI_INTERNAL_SECRET must be set in .env'')) \<and>
   (\<not> (absent (env ''WEBUI_INTERNAL_SECRET'') \<and> absent (penv ''WEBUI_INTERNAL_SECRET'')) \<longrightarrow>
      (\<exists>c. constructor_skill os env penv = Inr c \<and> secret_skill c \<noteq> [])) \<and>
   fst (connect_skill ch io w) = Inr () \<and>
   fst (disconnect_skill ch w) = Inr () \<and>
   fst (sendMessage_skill ch io jid reply w) = Inr () \<and>
   fst (setTyping_skill ch io jid isTyping w) = Inr () \<and>
   fst (timer_callback_skill ch io w) = Inr () \<and>
   constructor ops = Inr \<lparr>opts = ops, polling = False, pollTimer = None\<rparr>"
  using constructor_skill_fails[of env penv os] constructor_skill_succeeds[of env penv os]
  by (simp add: connect_skill_resolves disconnect_skill_resolves sendMessage_skill_resolves
      setTyping_skill_resolves timer_callback_skill_resolves constructor_def)

theorem constructor_fails_only_in_skill_package_witness:
  "absent (Map.empty ''WEBUI_INTERNAL_SECRET'') \<and>
   constructor_skill opts_mock Map.empty Map.empty =
     Inl (ConfigError ''WEBUI_INTERNAL_SECRET must be set in .env'') \<and>
   \<not> absent (env_test ''WEBUI_INTERNAL_SECRET'') \<and>
   constructor_skill opts_mock env_test Map.empty = Inr (channel_skill_test opts_mock)"
proof -
  have a: "absent (Map.empty ''WEBUI_INTERNAL_SECRET'')" by (simp add: absent_def)
  have b: "\<not> absent (env_test ''WEBUI_INTERNAL_SECRET'')" by (simp add: absent_def env_test_def)
  have c: "constructor_skill opts_mock env_test Map.empty = Inr (channel_skill_test opts_mock)"
    by (simp add: constructor_skill_def env_test_def js_or_def strip_trailing_slash_def
        parseInt10_def is_space_def is_digit_def digits_value_def channel_skill_test_def)
  from constructor_fails_only_in_skill_package
    [where env = "Map.empty" and penv = "Map.empty" and os = opts_mock
      and ch = "channel_skill_test opts_mock" and io = io_offline
      and w = "world_of host_empty" and jid = "''web:conv-123''" and reply = "''hello''"
      and isTyping = True and ops = "with_url opts_mock ''http://localhost:3000'' []"]
  show ?thesis using a b c by simp
qed

text \<open>
  C3 as stated fails on \<^verbatim>\<open>src/channels/web.ts\<close>: with an empty secret the adapter is
  constructed.
\<close>

theorem constructor_accepts_empty_secret:
  "secret (with_url opts_mock ''http://localhost:3000'' []) = [] \<and>
   constructor (with_url opts_mock ''http://localhost:3000'' []) =
     Inr \<lparr>opts = with_url opts_mock ''http://localhost:3000'' [], polling = False,
          pollTimer = None\<rparr>"
  by (simp add: constructor_def with_url_def)

subsection \<open>A poll whose fetch fails\<close>

lemma get_failed:
  assumes "failed (fetch io (fetches w) (pending_request this))"
  shows "\<exists>e. get this io ''/api/internal/pending'' w =
           (Inl e, w\<lparr>trace := trace w @ [Fetch (pending_request this)],
                     fetches := Suc (fetches w)\<rparr>)"
  using assms
  by (auto simp: failed_def get_def do_fetch_def pending_request_def split: fetch_result.splits)

lemma request_skill_failed:
  assumes "failed (fetch io (fetches w) (pending_request_skill this))"
  shows "\<exists>e. request_skill this io ''GET'' ''/api/internal/pending'' None w =
           (Inl e, w\<lparr>trace := trace w @ [Fetch (pending_request_skill this)],
                     fetches := Suc (fetches w)\<rparr>)"
  using assms
  by (auto simp: failed_def request_skill_def do_fetch_def pending_request_skill_def
      request_of_skill_def split: fetch_result.splits)

lemma poll_failed:
  assumes "failed (fetch io (fetches w) (pending_request this))"
  shows "fst (poll this io w) = Inr () \<and>
         host (snd (snd (poll this io w))) = host w \<and>
         host_calls (trace (snd (snd (poll this io w)))) = host_calls (trace w) \<and>
         requests_of (trace (snd (snd (poll this io w)))) =
           requests_of (trace w) @ [pending_request this]"
proof -
  from get_failed[OF assms] obtain e where
    g: "get this io ''/api/internal/pending'' w =
           (Inl e, w\<lparr>trace := trace w @ [Fetch (pending_request this)],
                     fetches := Suc (fetches w)\<rparr>)"
    by blast
  show ?thesis
    using g by (simp add: poll_def poll_try_def schedulePoll_def setTimeout_def logger_def Let_def)
qed

lemma poll_skill_failed:
  assumes "failed (fetch io (fetches w) (pending_request_skill this))"
  shows "poll_skill this io w =
           (Inr (), w\<lparr>trace := trace w @ [Fetch (pending_request_skill this),
               Log Warn ''WebChannel /pending poll failed, retrying next cycle''],
              fetches := Suc (fetches w)\<rparr>)"
proof -
  from request_skill_failed[OF assms] obtain e where
    g: "request_skill this io ''GET'' ''/api/internal/pending'' None w =
           (Inl e, w\<lparr>trace := trace w @ [Fetch (pending_request_skill this)],
                     fetches := Suc (fetches w)\<rparr>)"
    by blast
  show ?thesis using g by (simp add: poll_skill_def logger_def)
qed

text \<open>
  C4. When the fetch of the pending batch fails (it rejects, or the status is not 2xx),
  a poll of either class resolves without an error, leaves the host's state as it was,
  calls no callback of the host, and issues no request but the failed GET: no ack.
\<close>

theorem poll_stops_when_pending_fetch_fails:
  assumes "failed (fetch io (fetches w) (pending_request this))"
      and "failed (fetch io (fetches w) (pending_request_skill this'))"
  shows "fst (poll this io w) = Inr () \<and>
         host (snd (snd (poll this io w))) = host w \<and>
         host_calls (trace (snd (snd (poll this io w)))) = host_calls (trace w) \<and>
         requests_of (trace (snd (snd (poll this io w)))) =
           requests_of (trace w) @ [pending_request this] \<and>
         fst (poll_skill this' io w) = Inr () \<and>
         host (snd (poll_skill this' io w)) = host w \<and>
         host_calls (trace (snd (poll_skill this' io w))) = host_calls (trace w) \<and>
         requests_of (trace (snd (poll_skill this' io w))) =
           requests_of (trace w) @ [pending_request_skill this']"
  using poll_failed[OF assms(1)] by (simp add: poll_skill_failed[OF assms(2)])

theorem poll_stops_when_pending_fetch_fails_witness:
  "failed (fetch (io_test 503 (batch [reg_abc] [msg_abc]) 204) (fetches (world_of host_main))
      (pending_request (channel_test opts_live))) \<and>
   failed (fetch (io_test 503 (batch [reg_abc] [msg_abc]) 204) (fetches (world_of host_main))
      (pending_request_skill (channel_skill_test opts_live))) \<and>
   fst (poll (channel_test opts_live) (io_test 503 (batch [reg_abc] [msg_abc]) 204)
      (world_of host_main)) = Inr () \<and>
   host_calls (trace (snd (snd (poll (channel_test opts_live)
      (io_test 503 (batch [reg_abc] [msg_abc]) 204) (world_of host_main))))) = [] \<and>
   requests_of (trace (snd (snd (poll (channel_test opts_live)
      (io_test 503 (batch [reg_abc] [msg_abc]) 204) (world_of host_main))))) =
     [pending_request (channel_test opts_live)] \<and>
   fst (poll_skill (channel_skill_test opts_live) (io_test 503 (batch [reg_abc] [msg_abc]) 204)
      (world_of host_main)) = Inr () \<and>
   host_calls (trace (snd (poll_skill (channel_skill_test opts_live)
      (io_test 503 (batch [reg_abc] [msg_abc]) 204) (world_of host_main)))) = [] \<and>
   requests_of (trace (snd (poll_skill (channel_skill_test opts_live)
      (io_test 503 (batch [reg_abc] [msg_abc]) 204) (world_of host_main)))) =
     [pending_request_skill (channel_skill_test opts_live)]"
proof -
  have a: "failed (fetch (io_test 503 (batch [reg_abc] [msg_abc]) 204)
      (fetches (world_of host_main)) (pending_request (channel_test opts_live)))"
    by (simp add: failed_def io_test_def pending_request_def ok_def)
  have b: "failed (fetch (io_test 503 (batch [reg_abc] [msg_abc]) 204)
      (fetches (world_of host_main)) (pending_request_skill (channel_skill_test opts_live)))"
    by (simp add: failed_def io_test_def pending_request_skill_def request_of_skill_def ok_def)
  have t: "trace (world_of host_main) = []" by (simp add: world_of_def)
  from poll_stops_when_pending_fetch_fails [OF a b] show ?thesis using a b by (simp add: t)
qed

subsection \<open>The two iterations of a poll\<close>

lemma prs_ids:
  "fst (poll_registrations_skill os io a regs acc w) = acc @ map reg_conversationId regs"
  by (induction regs arbitrary: acc w) (simp_all add: Let_def split: prod.splits)

lemma prs_requests:
  "requests_of (trace (snd (poll_registrations_skill os io a regs acc w))) = requests_of (trace w)"
  by (induction regs arbitrary: acc w) (simp_all add: Let_def world_ops split: prod.splits)

lemma prs_calls:
  "calls_onMessage (trace (snd (poll_registrations_skill os io a regs acc w))) =
     calls_onMessage (trace w)"
  by (induction regs arbitrary: acc w) (simp_all add: Let_def world_ops split: prod.splits)

lemma prs_append:
  "poll_registrations_skill os io a (xs @ ys) acc w =
     (case poll_registrations_skill os io a xs acc w of
        (acc', w') \<Rightarrow> poll_registrations_skill os io a ys acc' w')"
  by (induction xs arbitrary: acc w) (simp_all add: Let_def split: prod.splits)

lemma pms_view:
  assumes "\<And>j m h. objects (onMessage os j m h) a = objects h a"
      and "\<And>j ts n c g h. objects (onChatMetadata os j ts n c g h) a = objects h a"
  shows "objects (host (snd (poll_messages_skill os a msgs acc w))) a = objects (host w) a"
  using assms
  by (induction msgs arbitrary: acc w) (simp_all add: Let_def world_ops)

lemma pms_ids:
  assumes "\<And>j m h. objects (onMessage os j m h) a = objects h a"
      and "\<And>j ts n c g h. objects (onChatMetadata os j ts n c g h) a = objects h a"
  shows "fst (poll_messages_skill os a msgs acc w) =
           acc @ map msg_id
             (filter (\<lambda>m. objects (host w) a (''web:'' @ msg_conversationId m) \<noteq> None) msgs)"
  using assms
  by (induction msgs arbitrary: acc w) (simp_all add: Let_def world_ops)

lemma pms_calls:
  assumes "\<And>j m h. objects (onMessage os j m h) a = objects h a"
      and "\<And>j ts n c g h. objects (onChatMetadata os j ts n c g h) a = objects h a"
  shows "calls_onMessage (trace (snd (poll_messages_skill os a msgs acc w))) =
           calls_onMessage (trace w) @
           map forwarded_skill
             (filter (\<lambda>m. objects (host w) a (''web:'' @ msg_conversationId m) \<noteq> None) msgs)"
  using assms
  by (induction msgs arbitrary: acc w) (simp_all add: Let_def world_ops forwarded_skill_def)

lemma pms_requests:
  "requests_of (trace (snd (poll_messages_skill os a msgs acc w))) = requests_of (trace w)"
  by (induction msgs arbitrary: acc w) (simp_all add: Let_def world_ops)

lemma pr_ids:
  "fst (poll_registrations os io regs acc w) = acc @ map reg_conversationId regs"
  by (induction regs arbitrary: acc w) (simp_all add: Let_def split: prod.splits)

lemma pr_requests:
  "requests_of (trace (snd (poll_registrations os io regs acc w))) = requests_of (trace w)"
  by (induction regs arbitrary: acc w) (simp_all add: Let_def world_ops split: prod.splits)

lemma pr_calls:
  "calls_onMessage (trace (snd (poll_registrations os io regs acc w))) = calls_onMessage (trace w)"
  by (induction regs arbitrary: acc w) (simp_all add: Let_def world_ops split: prod.splits)

lemma pr_append:
  "poll_registrations os io (xs @ ys) acc w =
     (case poll_registrations os io xs acc w of
        (acc', w') \<Rightarrow> poll_registrations os io ys acc' w')"
  by (induction xs arbitrary: acc w) (simp_all add: Let_def split: prod.splits)

lemma pm_ids: "fst (poll_messages os msgs acc w) = acc @ map msg_id msgs"
  by (induction msgs arbitrary: acc w) (simp_all add: Let_def)

lemma pm_calls:
  "calls_onMessage (trace (snd (poll_messages os msgs acc w))) =
     calls_onMessage (trace w) @ map forwarded msgs"
  by (induction msgs arbitrary: acc w) (simp_all add: Let_def world_ops forwarded_def)

lemma pm_requests:
  "requests_of (trace (snd (poll_messages os msgs acc w))) = requests_of (trace w)"
  by (induction msgs arbitrary: acc w) (simp_all add: Let_def world_ops)


lemma request_skill_calls:
  "calls_onMessage (trace (snd (request_skill this io m p b w))) = calls_onMessage (trace w)"
  by (simp add: request_skill_def do_fetch_def split: fetch_result.splits response_body.splits)

lemma post_calls:
  "calls_onMessage (trace (snd (post this io p b w))) = calls_onMessage (trace w)"
  by (simp add: post_def do_fetch_def split: fetch_result.splits)

lemma do_fetch_trace:
  "requests_of (trace (snd (do_fetch io r w))) = requests_of (trace w) @ [r]"
  "calls_onMessage (trace (snd (do_fetch io r w))) = calls_onMessage (trace w)"
  "host (snd (do_fetch io r w)) = host w"
  by (simp_all add: do_fetch_def)

lemma request_skill_pending_ok:
  assumes "fetch io (fetches w) (pending_request_skill this) = Responded st (JsonValue data)" "ok st"
  shows "request_skill this io ''GET'' ''/api/internal/pending'' None w =
           (Inr (Some data), snd (do_fetch io (pending_request_skill this) w))"
  using assms
  by (simp add: request_skill_def do_fetch_def pending_request_skill_def request_of_skill_def)

lemma get_pending_ok:
  assumes "fetch io (fetches w) (pending_request this) = Responded st (JsonValue data)" "ok st"
  shows "get this io ''/api/internal/pending'' w =
           (Inr (Some data), snd (do_fetch io (pending_request this) w))"
  using assms by (simp add: get_def do_fetch_def pending_request_def)

lemma poll_skill_ok:
  assumes "fetch io (fetches w) (pending_request_skill this) = Responded st (JsonValue data)" "ok st"
      and "poll_registrations_skill (opts_skill this) io
             (registeredGroups (opts_skill this) (host w))
             (batch_registrations data) [] (snd (do_fetch io (pending_request_skill this) w)) =
           (cids, w2)"
      and "poll_messages_skill (opts_skill this) (registeredGroups (opts_skill this) (host w2))
             (batch_messages data) [] w2 = (mids, w3)"
  shows "poll_skill this io w =
           (if mids \<noteq> [] \<or> cids \<noteq> [] then
              (case request_skill this io ''POST'' ''/api/internal/ack'' (Some (Ack cids mids)) w3 of
                 (Inr _, w4) \<Rightarrow> (Inr (), w4)
               | (Inl err, w4) \<Rightarrow>
                   (Inr (), logger Warn
                      ''WebChannel ack failed - items may be redelivered on next poll'' w4))
            else (Inr (), w3))"
  using assms(3,4) unfolding poll_skill_def request_skill_pending_ok[OF assms(1,2)]
  by (simp add: batch_registrations_def batch_messages_def do_fetch_trace)

lemma poll_skill_requests:
  assumes "fetch io (fetches w) (pending_request_skill this) = Responded st (JsonValue data)" "ok st"
      and "poll_registrations_skill (opts_skill this) io
             (registeredGroups (opts_skill this) (host w))
             (batch_registrations data) [] (snd (do_fetch io (pending_request_skill this) w)) =
           (cids, w2)"
      and "poll_messages_skill (opts_skill this) (registeredGroups (opts_skill this) (host w2))
             (batch_messages data) [] w2 = (mids, w3)"
  shows "requests_of (trace (snd (poll_skill this io w))) =
           requests_of (trace w) @ [pending_request_skill this] @
           (if cids = [] \<and> mids = [] then []
            else [request_of_skill this ''POST'' ''/api/internal/ack'' (Some (Ack cids mids))])"
    and "calls_onMessage (trace (snd (poll_skill this io w))) = calls_onMessage (trace w3)"
proof -
  have r2: "requests_of (trace w2) = requests_of (trace w) @ [pending_request_skill this]"
    using prs_requests[of "opts_skill this" io "registeredGroups (opts_skill this) (host w)"
        "batch_registrations data" "[]" "snd (do_fetch io (pending_request_skill this) w)"]
      assms(3) by (simp add: do_fetch_trace)
  have r3: "requests_of (trace w3) = requests_of (trace w2)"
    using pms_requests[of "opts_skill this" "registeredGroups (opts_skill this) (host w2)"
        "batch_messages data" "[]" w2] assms(4) by simp
  obtain r w4 where a: "request_skill this io ''POST'' ''/api/internal/ack'' (Some (Ack cids mids)) w3 = (r, w4)"
    by fastforce
  have r4: "requests_of (trace w4) = requests_of (trace w3) @
              [request_of_skill this ''POST'' ''/api/internal/ack'' (Some (Ack cids mids))]"
    using request_skill_requests[of this io "''POST''" "''/api/internal/ack''" "Some (Ack cids mids)" w3] a
    by simp
  have c4: "calls_onMessage (trace w4) = calls_onMessage (trace w3)"
    using request_skill_calls[of this io "''POST''" "''/api/internal/ack''" "Some (Ack cids mids)" w3] a
    by simp
  show "requests_of (trace (snd (poll_skill this io w))) =
           requests_of (trace w) @ [pending_request_skill this] @
           (if cids = [] \<and> mids = [] then []
            else [request_of_skill this ''POST'' ''/api/internal/ack'' (Some (Ack cids mids))])"
    unfolding poll_skill_ok[OF assms] using a r2 r3 r4
    by (cases r) (auto simp: logger_def)
  show "calls_onMessage (trace (snd (poll_skill this io w))) = calls_onMessage (trace w3)"
    unfolding poll_skill_ok[OF assms] using a c4
    by (cases r) (auto simp: logger_def)
qed


lemma schedulePoll_trace:
  "requests_of (trace (snd (schedulePoll this w))) = requests_of (trace w)"
  "calls_onMessage (trace (snd (schedulePoll this w))) = calls_onMessage (trace w)"
  by (simp_all add: schedulePoll_def setTimeout_def)

lemma poll_try_ok:
  assumes "fetch io (fetches w) (pending_request this) = Responded st (JsonValue data)" "ok st"
      and "poll_registrations (opts this) io (batch_registrations data) []
             (snd (do_fetch io (pending_request this) w)) = (cids, w2)"
      and "poll_messages (opts this) (batch_messages data) [] w2 = (mids, w3)"
  shows "poll_try this io w =
           (if cids \<noteq> [] \<or> mids \<noteq> [] then
              post this io ''/api/internal/ack'' (Ack cids mids) w3
            else (Inr (), w3))"
  using assms(3,4) unfolding poll_try_def get_pending_ok[OF assms(1,2)]
  by (simp add: batch_registrations_def batch_messages_def)

lemma poll_requests:
  assumes "fetch io (fetches w) (pending_request this) = Responded st (JsonValue data)" "ok st"
      and "poll_registrations (opts this) io (batch_registrations data) []
             (snd (do_fetch io (pending_request this) w)) = (cids, w2)"
      and "poll_messages (opts this) (batch_messages data) [] w2 = (mids, w3)"
  shows "requests_of (trace (snd (snd (poll this io w)))) =
           requests_of (trace w) @ [pending_request this] @
           (if cids = [] \<and> mids = [] then []
            else [post_request this ''/api/internal/ack'' (Ack cids mids)])"
    and "calls_onMessage (trace (snd (snd (poll this io w)))) = calls_onMessage (trace w3)"
proof -
  have r2: "requests_of (trace w2) = requests_of (trace w) @ [pending_request this]"
    using pr_requests[of "opts this" io "batch_registrations data" "[]"
        "snd (do_fetch io (pending_request this) w)"] assms(3)
    by (simp add: do_fetch_trace)
  have r3: "requests_of (trace w3) = requests_of (trace w2)"
    using pm_requests[of "opts this" "batch_messages data" "[]" w2] assms(4) by simp
  obtain r w4 where a: "post this io ''/api/internal/ack'' (Ack cids mids) w3 = (r, w4)"
    by fastforce
  have r4: "requests_of (trace w4) =
              requests_of (trace w3) @ [post_request this ''/api/internal/ack'' (Ack cids mids)]"
    using post_requests[of this io "''/api/internal/ack''" "Ack cids mids" w3] a by simp
  have c4: "calls_onMessage (trace w4) = calls_onMessage (trace w3)"
    using post_calls[of this io "''/api/internal/ack''" "Ack cids mids" w3] a by simp
  show "requests_of (trace (snd (snd (poll this io w)))) =
           requests_of (trace w) @ [pending_request this] @
           (if cids = [] \<and> mids = [] then []
            else [post_request this ''/api/internal/ack'' (Ack cids mids)])"
    unfolding poll_def poll_try_ok[OF assms] using a r2 r3 r4
    by (cases r) (auto simp: logger_def schedulePoll_trace split: prod.splits)
  show "calls_onMessage (trace (snd (snd (poll this io w)))) = calls_onMessage (trace w3)"
    unfolding poll_def poll_try_ok[OF assms] using a c4
    by (cases r) (auto simp: logger_def schedulePoll_trace split: prod.splits)
qed


lemma poll_issues:
  assumes "fetch io (fetches w) (pending_request this) = Responded st (JsonValue data)"
      and "ok st"
  shows "requests_of (trace (snd (snd (poll this io w)))) =
           requests_of (trace w) @ [pending_request this] @
           (if batch_registrations data = [] \<and> batch_messages data = [] then []
            else [post_request this ''/api/internal/ack''
                    (Ack (map reg_conversationId (batch_registrations data))
                         (map msg_id (batch_messages data)))])"
proof -
  let ?w1 = "snd (do_fetch io (pending_request this) w)"
  obtain cids wa where
    a: "poll_registrations (opts this) io (batch_registrations data) [] ?w1 = (cids, wa)"
    by fastforce
  obtain ms wb where b: "poll_messages (opts this) (batch_messages data) [] wa = (ms, wb)"
    by fastforce
  have c: "cids = map reg_conversationId (batch_registrations data)"
    using pr_ids[of "opts this" io "batch_registrations data" "[]" ?w1] a by simp
  have m: "ms = map msg_id (batch_messages data)"
    using pm_ids[of "opts this" "batch_messages data" "[]" wa] b by simp
  show ?thesis using poll_requests(1)[OF assms a b] c m by simp
qed

lemma poll_skill_issues:
  assumes "fetch io (fetches w) (pending_request_skill ch) = Responded st (JsonValue data)"
      and "ok st"
      and "w2 = snd (poll_registrations_skill (opts_skill ch) io
                  (registeredGroups (opts_skill ch) (host w)) (batch_registrations data) []
                  (snd (do_fetch io (pending_request_skill ch) w)))"
      and "mids = fst (poll_messages_skill (opts_skill ch)
                  (registeredGroups (opts_skill ch) (host w2)) (batch_messages data) [] w2)"
  shows "requests_of (trace (snd (poll_skill ch io w))) =
           requests_of (trace w) @ [pending_request_skill ch] @
           (if batch_registrations data = [] \<and> mids = [] then []
            else [request_of_skill ch ''POST'' ''/api/internal/ack''
                    (Some (Ack (map reg_conversationId (batch_registrations data)) mids))])"
proof -
  let ?v1 = "snd (do_fetch io (pending_request_skill ch) w)"
  obtain cids where
    a: "poll_registrations_skill (opts_skill ch) io (registeredGroups (opts_skill ch) (host w))
          (batch_registrations data) [] ?v1 = (cids, w2)"
    using assms(3) by (metis prod.collapse)
  obtain wb where
    b: "poll_messages_skill (opts_skill ch) (registeredGroups (opts_skill ch) (host w2))
          (batch_messages data) [] w2 = (mids, wb)"
    using assms(4) by (metis prod.collapse)
  have c: "cids = map reg_conversationId (batch_registrations data)"
    using prs_ids[of "opts_skill ch" io "registeredGroups (opts_skill ch) (host w)"
        "batch_registrations data" "[]" ?v1] a
    by simp
  show ?thesis using poll_skill_requests(1)[OF assms(1,2) a b] c by simp
qed



subsection \<open>Which messages reach the host\<close>

lemma poll_forwards_all:
  assumes "fetch io (fetches w) (pending_request this) = Responded st (JsonValue data)"
      and "ok st"
  shows "calls_onMessage (trace (snd (snd (poll this io w)))) =
           calls_onMessage (trace w) @ map forwarded (batch_messages data)"
proof -
  let ?w1 = "snd (do_fetch io (pending_request this) w)"
  obtain cids wa where
    a: "poll_registrations (opts this) io (batch_registrations data) [] ?w1 = (cids, wa)"
    by fastforce
  obtain ms wb where b: "poll_messages (opts this) (batch_messages data) [] wa = (ms, wb)"
    by fastforce
  have 1: "calls_onMessage (trace wa) = calls_onMessage (trace w)"
    using pr_calls[of "opts this" io "batch_registrations data" "[]" ?w1] a
    by (simp add: do_fetch_trace)
  have 2: "calls_onMessage (trace wb) = calls_onMessage (trace wa) @ map forwarded (batch_messages data)"
    using pm_calls[of "opts this" "batch_messages data" "[]" wa] b by simp
  show ?thesis using poll_requests(2)[OF assms a b] 1 2 by simp
qed

lemma poll_skill_forwards_registered:
  assumes "fetch io (fetches w) (pending_request_skill ch) = Responded st (JsonValue data)"
      and "ok st"
      and "w2 = snd (poll_registrations_skill (opts_skill ch) io
                  (registeredGroups (opts_skill ch) (host w)) (batch_registrations data) []
                  (snd (do_fetch io (pending_request_skill ch) w)))"
      and "view = objects (host w2) (registeredGroups (opts_skill ch) (host w2))"
      and "\<And>j m h. objects (onMessage (opts_skill ch) j m h)
                      (registeredGroups (opts_skill ch) (host w2)) =
                    objects h (registeredGroups (opts_skill ch) (host w2))"
      and "\<And>j ts n c g h. objects (onChatMetadata (opts_skill ch) j ts n c g h)
                      (registeredGroups (opts_skill ch) (host w2)) =
                    objects h (registeredGroups (opts_skill ch) (host w2))"
  shows "calls_onMessage (trace (snd (poll_skill ch io w))) =
           calls_onMessage (trace w) @
           map forwarded_skill
             (filter (\<lambda>m. view (''web:'' @ msg_conversationId m) \<noteq> None) (batch_messages data))"
    and "requests_of (trace (snd (poll_skill ch io w))) =
           requests_of (trace w) @ [pending_request_skill ch] @
           (if batch_registrations data = [] \<and>
               filter (\<lambda>m. view (''web:'' @ msg_conversationId m) \<noteq> None) (batch_messages data) = []
            then []
            else [request_of_skill ch ''POST'' ''/api/internal/ack''
                    (Some (Ack (map reg_conversationId (batch_registrations data))
                       (map msg_id (filter (\<lambda>m. view (''web:'' @ msg_conversationId m) \<noteq> None)
                          (batch_messages data)))))])"
proof -
  let ?v1 = "snd (do_fetch io (pending_request_skill ch) w)"
  let ?a2 = "registeredGroups (opts_skill ch) (host w2)"
  let ?reg = "filter (\<lambda>m. view (''web:'' @ msg_conversationId m) \<noteq> None) (batch_messages data)"
  obtain cids where
    a: "poll_registrations_skill (opts_skill ch) io (registeredGroups (opts_skill ch) (host w))
          (batch_registrations data) [] ?v1 = (cids, w2)"
    using assms(3) by (metis prod.collapse)
  obtain mids wb where
    b: "poll_messages_skill (opts_skill ch) ?a2 (batch_messages data) [] w2 = (mids, wb)"
    by fastforce
  have 1: "calls_onMessage (trace w2) = calls_onMessage (trace w)"
    using prs_calls[of "opts_skill ch" io "registeredGroups (opts_skill ch) (host w)"
        "batch_registrations data" "[]" ?v1] a
    by (simp add: do_fetch_trace)
  have 2: "calls_onMessage (trace wb) = calls_onMessage (trace w2) @ map forwarded_skill ?reg"
    using pms_calls[of "opts_skill ch" ?a2 "batch_messages data" "[]" w2, OF assms(5,6)] b
    by (simp add: assms(4))
  have 3: "mids = map msg_id ?reg"
    using pms_ids[of "opts_skill ch" ?a2 "batch_messages data" "[]" w2, OF assms(5,6)] b
    by (simp add: assms(4))
  show "calls_onMessage (trace (snd (poll_skill ch io w))) =
           calls_onMessage (trace w) @ map forwarded_skill ?reg"
    using poll_skill_requests(2)[OF assms(1,2) a b] 1 2 by simp
  have "mids = fst (poll_messages_skill (opts_skill ch) ?a2 (batch_messages data) [] w2)"
    using b by simp
  from poll_skill_issues[OF assms(1,2,3) this]
  show "requests_of (trace (snd (poll_skill ch io w))) =
           requests_of (trace w) @ [pending_request_skill ch] @
           (if batch_registrations data = [] \<and> ?reg = [] then []
            else [request_of_skill ch ''POST'' ''/api/internal/ack''
                    (Some (Ack (map reg_conversationId (batch_registrations data))
                       (map msg_id ?reg)))])"
    by (simp add: 3)
qed

text \<open>
  C1. The property holds of the skill package (lemma \<open>poll_skill_forwards_registered\<close>)
  and fails on \<^verbatim>\<open>src/channels/web.ts\<close>, whose message loop never consults the
  registry. With an empty registry and a batch of no registration and one message for
  \<open>unknown-conv\<close>: \<^verbatim>\<open>src/channels/web.ts\<close> hands the message to the host and sends its
  id in the ack, although the jid is in the registry neither before nor after the poll;
  the skill package, on the same registry and batch, calls no callback and sends no ack.
\<close>

theorem web_ts_forwards_unregistered_message:
  "objects (host (world_of host_empty)) (registeredGroups opts_mock (host (world_of host_empty)))
     ''web:unknown-conv'' = None \<and>
   objects (host (snd (snd (poll (channel_test opts_mock)
      (io_test 200 (batch [] [msg_unknown]) 204) (world_of host_empty)))))
     (registeredGroups opts_mock (host (snd (snd (poll (channel_test opts_mock)
        (io_test 200 (batch [] [msg_unknown]) 204) (world_of host_empty))))))
     ''web:unknown-conv'' = None \<and>
   calls_onMessage (trace (snd (snd (poll (channel_test opts_mock)
      (io_test 200 (batch [] [msg_unknown]) 204) (world_of host_empty))))) =
     [(''web:unknown-conv'',
       \<lparr>nm_id = ''msg-2'', nm_chat_jid = ''web:unknown-conv'',
        nm_sender = ''user@web:unknown-conv'', nm_sender_name = ''You'',
        nm_content = ''Hello'', nm_timestamp = ''2026-02-27T10:00:00.000Z'',
        nm_is_from_me = False, nm_is_bot_message = None\<rparr>)] \<and>
   requests_of (trace (snd (snd (poll (channel_test opts_mock)
      (io_test 200 (batch [] [msg_unknown]) 204) (world_of host_empty))))) =
     [pending_request (channel_test opts_mock),
      post_request (channel_test opts_mock) ''/api/internal/ack'' (Ack [] [''msg-2''])] \<and>
   host_calls (trace (snd (poll_skill (channel_skill_test opts_mock)
      (io_test 200 (batch [] [msg_unknown]) 204) (world_of host_empty)))) = [] \<and>
   requests_of (trace (snd (poll_skill (channel_skill_test opts_mock)
      (io_test 200 (batch [] [msg_unknown]) 204) (world_of host_empty)))) =
     [pending_request_skill (channel_skill_test opts_mock)]"
  by (simp add: poll_def poll_try_def get_def post_def do_fetch_def schedulePoll_def
      poll_skill_def request_skill_def logger_def
      channel_test_def channel_skill_test_def with_url_def opts_mock_def io_test_def batch_def
      msg_unknown_def world_of_def host_empty_def ok_def call_onMessage_def Let_def
      pending_request_def post_request_def pending_request_skill_def request_of_skill_def)

theorem web_ts_forwards_unregistered_message_witness:
  "map fst (calls_onMessage (trace (snd (snd (poll (channel_test opts_mock)
      (io_test 200 (batch [] [msg_unknown]) 204) (world_of host_empty)))))) =
     [''web:unknown-conv''] \<and>
   requests_of (trace (snd (snd (poll (channel_test opts_mock)
      (io_test 200 (batch [] [msg_unknown]) 204) (world_of host_empty))))) =
     [pending_request (channel_test opts_mock),
      post_request (channel_test opts_mock) ''/api/internal/ack'' (Ack [] [''msg-2''])] \<and>
   host_calls (trace (snd (poll_skill (channel_skill_test opts_mock)
      (io_test 200 (batch [] [msg_unknown]) 204) (world_of host_empty)))) = []"
  using web_ts_forwards_unregistered_message by simp

subsection \<open>A registration of a conversation the host already knows\<close>

lemma post_host_calls: "host_calls (trace (snd (post this io p b w))) = host_calls (trace w)"
  by (simp add: post_def do_fetch_def split: fetch_result.splits)

lemma request_skill_host_calls:
  "host_calls (trace (snd (request_skill this io m p b w))) = host_calls (trace w)"
  by (simp add: request_skill_def do_fetch_def split: fetch_result.splits response_body.splits)

lemma schedulePoll_host_calls:
  "host_calls (trace (snd (schedulePoll this w))) = host_calls (trace w)"
  by (simp add: schedulePoll_def setTimeout_def)

lemma pm_host_calls:
  "host_calls (trace (snd (poll_messages os msgs acc w))) =
     host_calls (trace w) @
     map (\<lambda>m. CallOnMessage (fst (forwarded m)) (snd (forwarded m))) msgs"
  by (induction msgs arbitrary: acc w) (simp_all add: Let_def world_ops forwarded_def)

lemma poll_host_calls:
  assumes "fetch io (fetches w) (pending_request this) = Responded st (JsonValue data)" "ok st"
      and "poll_registrations (opts this) io (batch_registrations data) []
             (snd (do_fetch io (pending_request this) w)) = (cids, w2)"
      and "poll_messages (opts this) (batch_messages data) [] w2 = (mids, w3)"
  shows "host_calls (trace (snd (snd (poll this io w)))) = host_calls (trace w3)"
proof -
  obtain r w4 where a: "post this io ''/api/internal/ack'' (Ack cids mids) w3 = (r, w4)"
    by fastforce
  have c4: "host_calls (trace w4) = host_calls (trace w3)"
    using post_host_calls[of this io "''/api/internal/ack''" "Ack cids mids" w3] a by simp
  show ?thesis
    unfolding poll_def poll_try_ok[OF assms] using a c4
    by (cases r) (auto simp: logger_def schedulePoll_host_calls split: prod.splits)
qed

lemma poll_skill_host_calls:
  assumes "fetch io (fetches w) (pending_request_skill this) = Responded st (JsonValue data)" "ok st"
      and "poll_registrations_skill (opts_skill this) io
             (registeredGroups (opts_skill this) (host w))
             (batch_registrations data) [] (snd (do_fetch io (pending_request_skill this) w)) =
           (cids, w2)"
      and "poll_messages_skill (opts_skill this) (registeredGroups (opts_skill this) (host w2))
             (batch_messages data) [] w2 = (mids, w3)"
  shows "host_calls (trace (snd (poll_skill this io w))) = host_calls (trace w3)"
proof -
  obtain r w4 where a: "request_skill this io ''POST'' ''/api/internal/ack'' (Some (Ack cids mids)) w3 = (r, w4)"
    by fastforce
  have c4: "host_calls (trace w4) = host_calls (trace w3)"
    using request_skill_host_calls[of this io "''POST''" "''/api/internal/ack''" "Some (Ack cids mids)" w3] a
    by simp
  show ?thesis
    unfolding poll_skill_ok[OF assms] using a c4
    by (cases r) (auto simp: logger_def)
qed

lemma pr_known:
  assumes "poll_registrations os io pre [] w1 = (ids, wk)"
      and "objects (host wk) (registeredGroups os (host wk)) (''web:'' @ reg_conversationId reg) \<noteq> None"
  shows "poll_registrations os io (pre @ reg # rest) [] w1 =
           poll_registrations os io rest (ids @ [reg_conversationId reg]) wk"
  using assms by (auto simp add: pr_append Let_def)

lemma prs_known:
  assumes "poll_registrations_skill os io a pre [] w1 = (ids, wk)"
      and "objects (host wk) a (''web:'' @ reg_conversationId reg) \<noteq> None"
  shows "poll_registrations_skill os io a (pre @ reg # rest) [] w1 =
           poll_registrations_skill os io a rest (ids @ [reg_conversationId reg]) wk"
  using assms by (auto simp add: prs_append Let_def)



lemma pr_grows: "\<exists>evs. trace (snd (poll_registrations os io regs acc w)) = trace w @ evs"
proof (induction regs arbitrary: acc w)
  case Nil
  then show ?case by simp
next
  case (Cons reg regs)
  let ?jid = "''web:'' @ reg_conversationId reg"
  show ?case
  proof (cases "objects (host w) (registeredGroups os (host w)) ?jid = None")
    case False
    then show ?thesis using Cons.IH[of "acc @ [reg_conversationId reg]" w] by (auto simp: Let_def)
  next
    case True
    obtain w' where w': "poll_registrations os io (reg # regs) acc w =
        poll_registrations os io regs (acc @ [reg_conversationId reg]) w'"
      and g: "\<exists>e. trace w' = trace w @ e"
      using True by (simp add: Let_def world_ops split: prod.splits)
    from Cons.IH[of "acc @ [reg_conversationId reg]" w'] g show ?thesis
      unfolding w' by auto
  qed
qed

lemma prs_grows:
  "\<exists>evs. trace (snd (poll_registrations_skill os io a regs acc w)) = trace w @ evs"
proof (induction regs arbitrary: acc w)
  case Nil
  then show ?case by simp
next
  case (Cons reg regs)
  let ?jid = "''web:'' @ reg_conversationId reg"
  show ?case
  proof (cases "objects (host w) a ?jid = None")
    case False
    then show ?thesis using Cons.IH[of "acc @ [reg_conversationId reg]" w] by (auto simp: Let_def)
  next
    case True
    obtain w' where w': "poll_registrations_skill os io a (reg # regs) acc w =
        poll_registrations_skill os io a regs (acc @ [reg_conversationId reg]) w'"
      and g: "\<exists>e. trace w' = trace w @ e"
      using True by (simp add: Let_def world_ops split: prod.splits)
    from Cons.IH[of "acc @ [reg_conversationId reg]" w'] g show ?thesis
      unfolding w' by auto
  qed
qed

lemma pms_grows:
  "\<exists>evs. trace (snd (poll_messages_skill os a msgs acc w)) = trace w @ evs"
proof (induction msgs arbitrary: acc w)
  case Nil
  then show ?case by simp
next
  case (Cons msg msgs)
  let ?jid = "''web:'' @ msg_conversationId msg"
  show ?case
  proof (cases "objects (host w) a ?jid = None")
    case True
    let ?w' = "logger Warn ''WebChannel: message for unregistered conversation, skipping'' w"
    have e: "poll_messages_skill os a (msg # msgs) acc w = poll_messages_skill os a msgs acc ?w'"
      using True by simp
    have g: "trace ?w' = trace w @ [Log Warn ''WebChannel: message for unregistered conversation, skipping'']"
      by (simp add: logger_def)
    from Cons.IH[of acc ?w'] show ?thesis unfolding e g by auto
  next
    case False
    obtain w' where e: "poll_messages_skill os a (msg # msgs) acc w =
        poll_messages_skill os a msgs (acc @ [msg_id msg]) w'"
      and g: "\<exists>ev. trace w' = trace w @ ev"
      using False by (auto simp: Let_def world_ops)
    from Cons.IH[of "acc @ [msg_id msg]" w'] g show ?thesis unfolding e by auto
  qed
qed

lemma grows_drop: "\<exists>evs. t' = t @ evs \<Longrightarrow> t' = t @ drop (length t) t'"
  by auto



lemma register_in_host_calls:
  "CallRegisterGroup j g \<in> set (host_calls t) \<longleftrightarrow> CallRegisterGroup j g \<in> set t"
  by (simp add: host_calls_def)

lemma pr_register:
  "CallRegisterGroup j g \<in> set (trace (snd (poll_registrations os io regs acc w))) \<Longrightarrow>
   CallRegisterGroup j g \<in> set (trace w) \<or>
   j \<in> (\<lambda>r. ''web:'' @ reg_conversationId r) ` set regs"
proof (induction regs arbitrary: acc w)
  case Nil
  then show ?case by simp
next
  case (Cons reg regs)
  let ?jid = "''web:'' @ reg_conversationId reg"
  show ?case
  proof (cases "objects (host w) (registeredGroups os (host w)) ?jid = None")
    case False
    then have "poll_registrations os io (reg # regs) acc w =
        poll_registrations os io regs (acc @ [reg_conversationId reg]) w"
      by (auto simp: Let_def)
    with Cons.prems Cons.IH[of "acc @ [reg_conversationId reg]" w] show ?thesis by auto
  next
    case True
    obtain w' where w': "poll_registrations os io (reg # regs) acc w =
        poll_registrations os io regs (acc @ [reg_conversationId reg]) w'"
      and g: "\<forall>j g. CallRegisterGroup j g \<in> set (trace w') \<longrightarrow>
                CallRegisterGroup j g \<in> set (trace w) \<or> j = ?jid"
      using True by (simp add: Let_def world_ops split: prod.splits)
    from Cons.prems Cons.IH[of "acc @ [reg_conversationId reg]" w'] g show ?thesis
      unfolding w' by auto
  qed
qed

lemma prs_register:
  "CallRegisterGroup j g \<in> set (trace (snd (poll_registrations_skill os io a regs acc w))) \<Longrightarrow>
   CallRegisterGroup j g \<in> set (trace w) \<or>
   j \<in> (\<lambda>r. ''web:'' @ reg_conversationId r) ` set regs"
proof (induction regs arbitrary: acc w)
  case Nil
  then show ?case by simp
next
  case (Cons reg regs)
  let ?jid = "''web:'' @ reg_conversationId reg"
  show ?case
  proof (cases "objects (host w) a ?jid = None")
    case False
    then have "poll_registrations_skill os io a (reg # regs) acc w =
        poll_registrations_skill os io a regs (acc @ [reg_conversationId reg]) w"
      by (auto simp: Let_def)
    with Cons.prems Cons.IH[of "acc @ [reg_conversationId reg]" w] show ?thesis by auto
  next
    case True
    obtain w' where w': "poll_registrations_skill os io a (reg # regs) acc w =
        poll_registrations_skill os io a regs (acc @ [reg_conversationId reg]) w'"
      and g: "\<forall>j g. CallRegisterGroup j g \<in> set (trace w') \<longrightarrow>
                CallRegisterGroup j g \<in> set (trace w) \<or> j = ?jid"
      using True by (simp add: Let_def world_ops split: prod.splits)
    from Cons.prems Cons.IH[of "acc @ [reg_conversationId reg]" w'] g show ?thesis
      unfolding w' by auto
  qed
qed

lemma pm_register:
  "CallRegisterGroup j g \<in> set (trace (snd (poll_messages os msgs acc w))) \<longleftrightarrow>
   CallRegisterGroup j g \<in> set (trace w)"
  by (induction msgs arbitrary: acc w) (simp_all add: Let_def world_ops)

lemma pms_register:
  "CallRegisterGroup j g \<in> set (trace (snd (poll_messages_skill os a msgs acc w))) \<longleftrightarrow>
   CallRegisterGroup j g \<in> set (trace w)"
  by (induction msgs arbitrary: acc w) (simp_all add: Let_def world_ops)

lemma do_fetch_register:
  "CallRegisterGroup j g \<in> set (trace (snd (do_fetch io req w))) \<longleftrightarrow>
   CallRegisterGroup j g \<in> set (trace w)"
  by (simp add: do_fetch_def)

text \<open>
  C5. A poll whose pending fetch succeeds and whose batch is \<open>pre @ reg # rest\<close>, where
  the derived jid \<open>web:<conversationId>\<close> of \<open>reg\<close> is in the registered-groups view
  when the iteration reaches \<open>reg\<close> (the world \<open>wk\<close> left by the registrations
  \<open>pre\<close>; \<^verbatim>\<open>web.ts\<close> asks the host for the view at that moment, the skill package
  reads the one it obtained before the first registration). In both classes:

  \<^item> the host calls of the whole poll are those made up to \<open>wk\<close>, followed by those of
    the registrations \<open>rest\<close> run from \<open>wk\<close> itself, followed by those of the messages:
    between the last call for \<open>pre\<close> and the first call for \<open>rest\<close> the poll calls
    neither \<^verbatim>\<open>registerGroup\<close> nor \<^verbatim>\<open>onChatMetadata\<close> nor anything else of the host;
  \<^item> the poll sends one acknowledgement, and its \<^verbatim>\<open>conversationIds\<close> are the ids of the
    whole batch in order, the id of \<open>reg\<close> among them;
  \<^item> when no other registration of the batch carries the conversation id of \<open>reg\<close>,
    the trace of the whole poll holds no \<^verbatim>\<open>registerGroup\<close> call for its jid beyond those
    that were there before the poll. (A second registration with the same id could be
    registered by the same poll if a host callback removed the jid in between.)
\<close>

theorem known_registration_acknowledged_without_callback:
  assumes "fetch io (fetches w) (pending_request this) = Responded st (JsonValue data)"
      and "ok st"
      and "batch_registrations data = pre @ reg # rest"
      and "poll_registrations (opts this) io pre []
             (snd (do_fetch io (pending_request this) w)) = (ids, wk)"
      and "objects (host wk) (registeredGroups (opts this) (host wk))
             (''web:'' @ reg_conversationId reg) \<noteq> None"
      and "wr = snd (poll_registrations (opts this) io rest (ids @ [reg_conversationId reg]) wk)"
      and "fetch io (fetches w) (pending_request_skill ch) = Responded st' (JsonValue data')"
      and "ok st'"
      and "batch_registrations data' = pre' @ reg' # rest'"
      and "poll_registrations_skill (opts_skill ch) io
             (registeredGroups (opts_skill ch) (host w)) pre' []
             (snd (do_fetch io (pending_request_skill ch) w)) = (ids', wk')"
      and "objects (host wk') (registeredGroups (opts_skill ch) (host w))
             (''web:'' @ reg_conversationId reg') \<noteq> None"
      and "wr' = snd (poll_registrations_skill (opts_skill ch) io
                   (registeredGroups (opts_skill ch) (host w)) rest'
                   (ids' @ [reg_conversationId reg']) wk')"
      and "wm' = snd (poll_messages_skill (opts_skill ch)
                   (registeredGroups (opts_skill ch) (host wr')) (batch_messages data') [] wr')"
  shows "host_calls (trace (snd (snd (poll this io w)))) =
           host_calls (trace wk) @ host_calls (drop (length (trace wk)) (trace wr)) @
           map (\<lambda>m. CallOnMessage (fst (forwarded m)) (snd (forwarded m)))
             (batch_messages data) \<and>
         requests_of (trace (snd (snd (poll this io w)))) =
           requests_of (trace w) @
             [pending_request this,
              post_request this ''/api/internal/ack''
                (Ack (map reg_conversationId pre @ reg_conversationId reg #
                        map reg_conversationId rest)
                     (map msg_id (batch_messages data)))] \<and>
         host_calls (trace (snd (poll_skill ch io w))) =
           host_calls (trace wk') @ host_calls (drop (length (trace wk')) (trace wm')) \<and>
         (\<exists>mids. requests_of (trace (snd (poll_skill ch io w))) =
           requests_of (trace w) @
             [pending_request_skill ch,
              request_of_skill ch ''POST'' ''/api/internal/ack''
                (Some (Ack (map reg_conversationId pre' @ reg_conversationId reg' #
                              map reg_conversationId rest') mids))]) \<and>
         (reg_conversationId reg \<notin> reg_conversationId ` set (pre @ rest) \<longrightarrow>
            (\<forall>g. CallRegisterGroup (''web:'' @ reg_conversationId reg) g
                    \<in> set (trace (snd (snd (poll this io w)))) \<longrightarrow>
                  CallRegisterGroup (''web:'' @ reg_conversationId reg) g \<in> set (trace w))) \<and>
         (reg_conversationId reg' \<notin> reg_conversationId ` set (pre' @ rest') \<longrightarrow>
            (\<forall>g. CallRegisterGroup (''web:'' @ reg_conversationId reg') g
                    \<in> set (trace (snd (poll_skill ch io w))) \<longrightarrow>
                  CallRegisterGroup (''web:'' @ reg_conversationId reg') g \<in> set (trace w)))"
proof -
  let ?w1 = "snd (do_fetch io (pending_request this) w)"
  let ?v1 = "snd (do_fetch io (pending_request_skill ch) w)"
  let ?a = "registeredGroups (opts_skill ch) (host w)"
  obtain cids where a: "poll_registrations (opts this) io rest
      (ids @ [reg_conversationId reg]) wk = (cids, wr)"
    using assms(6) by (metis prod.collapse)
  have whole: "poll_registrations (opts this) io (batch_registrations data) [] ?w1 = (cids, wr)"
    using pr_known[OF assms(4,5), of rest] a by (simp add: assms(3))
  obtain mids w3 where b: "poll_messages (opts this) (batch_messages data) [] wr = (mids, w3)"
    by fastforce
  have m3: "host_calls (trace w3) = host_calls (trace wr) @
              map (\<lambda>m. CallOnMessage (fst (forwarded m)) (snd (forwarded m))) (batch_messages data)"
    using pm_host_calls[of "opts this" "batch_messages data" "[]" wr] b by simp
  have "\<exists>evs. trace wr = trace wk @ evs"
    using pr_grows[of "opts this" io rest "ids @ [reg_conversationId reg]" wk] a by simp
  then have "trace wr = trace wk @ drop (length (trace wk)) (trace wr)" by (rule grows_drop)
  then have sp: "host_calls (trace wr) =
                   host_calls (trace wk) @ host_calls (drop (length (trace wk)) (trace wr))"
    by (metis host_calls_simps(2))
  have A1: "host_calls (trace (snd (snd (poll this io w)))) =
           host_calls (trace wk) @ host_calls (drop (length (trace wk)) (trace wr)) @
           map (\<lambda>m. CallOnMessage (fst (forwarded m)) (snd (forwarded m))) (batch_messages data)"
    using poll_host_calls[OF assms(1,2) whole b] m3 sp by simp
  have A2: "requests_of (trace (snd (snd (poll this io w)))) =
           requests_of (trace w) @
             [pending_request this,
              post_request this ''/api/internal/ack''
                (Ack (map reg_conversationId pre @ reg_conversationId reg #
                        map reg_conversationId rest)
                     (map msg_id (batch_messages data)))]"
    using poll_issues[OF assms(1,2)] by (simp add: assms(3))
  obtain cids' where a': "poll_registrations_skill (opts_skill ch) io ?a rest'
      (ids' @ [reg_conversationId reg']) wk' = (cids', wr')"
    using assms(12) by (metis prod.collapse)
  have whole': "poll_registrations_skill (opts_skill ch) io ?a (batch_registrations data') [] ?v1 =
                  (cids', wr')"
    using prs_known[OF assms(10,11), of rest'] a' by (simp add: assms(9))
  obtain mids' where b': "poll_messages_skill (opts_skill ch)
      (registeredGroups (opts_skill ch) (host wr')) (batch_messages data') [] wr' = (mids', wm')"
    using assms(13) by (metis prod.collapse)
  have "\<exists>evs. trace wr' = trace wk' @ evs"
    using prs_grows[of "opts_skill ch" io ?a rest' "ids' @ [reg_conversationId reg']" wk'] a'
    by simp
  moreover have "\<exists>evs. trace wm' = trace wr' @ evs"
    using pms_grows[of "opts_skill ch" "registeredGroups (opts_skill ch) (host wr')"
        "batch_messages data'" "[]" wr'] b' by simp
  ultimately have "\<exists>evs. trace wm' = trace wk' @ evs" by auto
  then have "trace wm' = trace wk' @ drop (length (trace wk')) (trace wm')" by (rule grows_drop)
  then have sp': "host_calls (trace wm') =
                   host_calls (trace wk') @ host_calls (drop (length (trace wk')) (trace wm'))"
    by (metis host_calls_simps(2))
  have B1: "host_calls (trace (snd (poll_skill ch io w))) =
           host_calls (trace wk') @ host_calls (drop (length (trace wk')) (trace wm'))"
    using poll_skill_host_calls[OF assms(7,8) whole' b'] sp' by simp
  have w2eq: "wr' = snd (poll_registrations_skill (opts_skill ch) io ?a
                 (batch_registrations data') [] ?v1)"
    using whole' by simp
  have "requests_of (trace (snd (poll_skill ch io w))) =
           requests_of (trace w) @
             [pending_request_skill ch,
              request_of_skill ch ''POST'' ''/api/internal/ack''
                (Some (Ack (map reg_conversationId pre' @ reg_conversationId reg' #
                              map reg_conversationId rest') mids'))]"
    using poll_skill_issues[OF assms(7,8) w2eq, of mids'] b' by (simp add: assms(9))
  then have B2: "\<exists>mids. requests_of (trace (snd (poll_skill ch io w))) =
           requests_of (trace w) @
             [pending_request_skill ch,
              request_of_skill ch ''POST'' ''/api/internal/ack''
                (Some (Ack (map reg_conversationId pre' @ reg_conversationId reg' #
                              map reg_conversationId rest') mids))]"
    by (rule exI)
  have A3: "CallRegisterGroup (''web:'' @ reg_conversationId reg) g \<in> set (trace w)"
    if d: "reg_conversationId reg \<notin> reg_conversationId ` set (pre @ rest)"
      and c: "CallRegisterGroup (''web:'' @ reg_conversationId reg) g
                \<in> set (trace (snd (snd (poll this io w))))" for g
  proof -
    let ?e = "CallRegisterGroup (''web:'' @ reg_conversationId reg) g"
    have "?e \<in> set (host_calls (trace (snd (snd (poll this io w)))))"
      using c by (simp only: register_in_host_calls)
    then have "?e \<in> set (host_calls (trace w3))"
      by (simp only: poll_host_calls[OF assms(1,2) whole b])
    then have "?e \<in> set (trace w3)" by (simp only: register_in_host_calls)
    then have "?e \<in> set (trace (snd (poll_messages (opts this) (batch_messages data) [] wr)))"
      using b by simp
    then have "?e \<in> set (trace wr)" by (simp add: pm_register)
    then have "?e \<in> set (trace (snd (poll_registrations (opts this) io rest
                 (ids @ [reg_conversationId reg]) wk)))"
      using a by simp
    from pr_register[OF this] d have "?e \<in> set (trace wk)" by auto
    then have "?e \<in> set (trace (snd (poll_registrations (opts this) io pre [] ?w1)))"
      using assms(4) by simp
    from pr_register[OF this] d have "?e \<in> set (trace ?w1)" by auto
    then show ?thesis by (simp add: do_fetch_register)
  qed
  have B3: "CallRegisterGroup (''web:'' @ reg_conversationId reg') g \<in> set (trace w)"
    if d: "reg_conversationId reg' \<notin> reg_conversationId ` set (pre' @ rest')"
      and c: "CallRegisterGroup (''web:'' @ reg_conversationId reg') g
                \<in> set (trace (snd (poll_skill ch io w)))" for g
  proof -
    let ?e = "CallRegisterGroup (''web:'' @ reg_conversationId reg') g"
    have "?e \<in> set (host_calls (trace (snd (poll_skill ch io w))))"
      using c by (simp only: register_in_host_calls)
    then have "?e \<in> set (host_calls (trace wm'))"
      by (simp only: poll_skill_host_calls[OF assms(7,8) whole' b'])
    then have "?e \<in> set (trace wm')" by (simp only: register_in_host_calls)
    then have "?e \<in> set (trace (snd (poll_messages_skill (opts_skill ch)
                 (registeredGroups (opts_skill ch) (host wr')) (batch_messages data') [] wr')))"
      using b' by simp
    then have "?e \<in> set (trace wr')" by (simp add: pms_register)
    then have "?e \<in> set (trace (snd (poll_registrations_skill (opts_skill ch) io ?a rest'
                 (ids' @ [reg_conversationId reg']) wk')))"
      using a' by simp
    from prs_register[OF this] d have "?e \<in> set (trace wk')" by auto
    then have "?e \<in> set (trace (snd (poll_registrations_skill (opts_skill ch) io ?a pre' [] ?v1)))"
      using assms(10) by simp
    from prs_register[OF this] d have "?e \<in> set (trace ?v1)" by auto
    then show ?thesis by (simp add: do_fetch_register)
  qed
  from A1 A2 B1 B2 A3 B3 show ?thesis by blast
qed


theorem known_registration_acknowledged_without_callback_witness:
  "fetch (io_test 200 (batch [reg_abc, reg_new] [msg_abc]) 204) (fetches (world_of host_main))
     (pending_request (channel_test opts_live)) =
     Responded 200 (JsonValue (batch [reg_abc, reg_new] [msg_abc])) \<and>
   fetch (io_test 200 (batch [reg_abc, reg_new] [msg_abc]) 204) (fetches (world_of host_main))
     (pending_request_skill (channel_skill_test opts_live)) =
     Responded 200 (JsonValue (batch [reg_abc, reg_new] [msg_abc])) \<and>
   ok 200 \<and>
   objects (host (snd (do_fetch (io_test 200 (batch [reg_abc, reg_new] [msg_abc]) 204)
       (pending_request (channel_test opts_live)) (world_of host_main))))
     (registeredGroups opts_live (host (world_of host_main))) ''web:conv-abc'' \<noteq> None \<and>
   host_calls (trace (snd (snd (poll (channel_test opts_live)
       (io_test 200 (batch [reg_abc, reg_new] [msg_abc]) 204) (world_of host_main))))) =
     [CallOnChatMetadata ''web:conv-new'' ''2026-02-27T10:00:00.000Z'' (Some ''New'') ''web'' False,
      CallRegisterGroup ''web:conv-new''
        \<lparr>grp_name = ''New'', grp_folder = ''web-conv-new'', grp_trigger = [],
         grp_requiresTrigger = False, grp_added_at = ''2026-02-27T10:00:00.000Z''\<rparr>,
      CallOnMessage ''web:conv-abc'' (snd (forwarded msg_abc))] \<and>
   requests_of (trace (snd (snd (poll (channel_test opts_live)
       (io_test 200 (batch [reg_abc, reg_new] [msg_abc]) 204) (world_of host_main))))) =
     [pending_request (channel_test opts_live),
      post_request (channel_test opts_live) ''/api/internal/ack''
        (Ack [''conv-abc'', ''conv-new''] [''msg-1''])] \<and>
   host_calls (trace (snd (poll_skill (channel_skill_test opts_live)
       (io_test 200 (batch [reg_abc, reg_new] [msg_abc]) 204) (world_of host_main)))) =
     [CallRegisterGroup ''web:conv-new''
        \<lparr>grp_name = ''New'', grp_folder = ''web-conv-new'', grp_trigger = ''web-conv-new'',
         grp_requiresTrigger = False, grp_added_at = ''2026-02-27T10:00:00.000Z''\<rparr>,
      CallOnChatMetadata ''web:conv-abc'' ''2026-02-27T10:00:00.000Z'' None ''web'' False,
      CallOnMessage ''web:conv-abc'' (snd (forwarded_skill msg_abc))] \<and>
   (\<exists>mids. requests_of (trace (snd (poll_skill (channel_skill_test opts_live)
       (io_test 200 (batch [reg_abc, reg_new] [msg_abc]) 204) (world_of host_main)))) =
     [pending_request_skill (channel_skill_test opts_live),
      request_of_skill (channel_skill_test opts_live) ''POST'' ''/api/internal/ack''
        (Some (Ack [''conv-abc'', ''conv-new''] mids))]) \<and>
   (\<forall>g. CallRegisterGroup ''web:conv-abc'' g \<notin> set (trace (snd (snd (poll
       (channel_test opts_live) (io_test 200 (batch [reg_abc, reg_new] [msg_abc]) 204)
       (world_of host_main)))))) \<and>
   (\<forall>g. CallRegisterGroup ''web:conv-abc'' g \<notin> set (trace (snd (poll_skill
       (channel_skill_test opts_live) (io_test 200 (batch [reg_abc, reg_new] [msg_abc]) 204)
       (world_of host_main)))))"
proof -
  let ?io = "io_test 200 (batch [reg_abc, reg_new] [msg_abc]) 204"
  let ?w = "world_of host_main"
  let ?wc = "channel_test opts_live"
  let ?ch = "channel_skill_test opts_live"
  let ?w1 = "snd (do_fetch ?io (pending_request ?wc) ?w)"
  let ?v1 = "snd (do_fetch ?io (pending_request_skill ?ch) ?w)"
  let ?wr = "snd (poll_registrations (opts ?wc) ?io [reg_new] ([] @ [reg_conversationId reg_abc]) ?w1)"
  let ?wr' = "snd (poll_registrations_skill (opts_skill ?ch) ?io
                (registeredGroups (opts_skill ?ch) (host ?w)) [reg_new]
                ([] @ [reg_conversationId reg_abc]) ?v1)"
  let ?wm' = "snd (poll_messages_skill (opts_skill ?ch)
                (registeredGroups (opts_skill ?ch) (host ?wr'))
                (batch_messages (batch [reg_abc, reg_new] [msg_abc])) [] ?wr')"
  have a: "fetch ?io (fetches ?w) (pending_request ?wc) =
             Responded 200 (JsonValue (batch [reg_abc, reg_new] [msg_abc]))"
    by (simp add: io_test_def pending_request_def)
  have b: "fetch ?io (fetches ?w) (pending_request_skill ?ch) =
             Responded 200 (JsonValue (batch [reg_abc, reg_new] [msg_abc]))"
    by (simp add: io_test_def pending_request_skill_def request_of_skill_def)
  have k: "ok 200" by (simp add: ok_def)
  have c: "batch_registrations (batch [reg_abc, reg_new] [msg_abc]) = [] @ reg_abc # [reg_new]"
    by (simp add: batch_registrations_def batch_def)
  have m: "batch_messages (batch [reg_abc, reg_new] [msg_abc]) = [msg_abc]"
    by (simp add: batch_messages_def batch_def)
  have d: "poll_registrations (opts ?wc) ?io [] [] ?w1 = ([], ?w1)" by simp
  have d': "poll_registrations_skill (opts_skill ?ch) ?io
              (registeredGroups (opts_skill ?ch) (host ?w)) [] [] ?v1 = ([], ?v1)"
    by simp
  have e: "objects (host ?w1) (registeredGroups (opts ?wc) (host ?w1))
             (''web:'' @ reg_conversationId reg_abc) \<noteq> None"
    by (simp add: do_fetch_def world_of_def host_main_def reg_abc_def channel_test_def
        with_url_def opts_live_def)
  have e': "objects (host ?v1) (registeredGroups (opts_skill ?ch) (host ?w))
              (''web:'' @ reg_conversationId reg_abc) \<noteq> None"
    by (simp add: do_fetch_def world_of_def host_main_def reg_abc_def channel_skill_test_def
        opts_live_def)
  have e0: "objects (host ?w1) (registeredGroups opts_live (host ?w)) ''web:conv-abc'' \<noteq> None"
    by (simp add: do_fetch_def world_of_def host_main_def)
  have t: "trace ?w = []" by (simp add: world_of_def)
  have t1: "trace ?w1 = [Fetch (pending_request ?wc)]"
    by (simp add: do_fetch_def world_of_def)
  have v1: "trace ?v1 = [Fetch (pending_request_skill ?ch)]"
    by (simp add: do_fetch_def world_of_def)
  have r: "reg_conversationId reg_abc = ''conv-abc''" by (simp add: reg_abc_def)
  have rn: "reg_conversationId reg_new = ''conv-new''" by (simp add: reg_new_def)
  have mi: "msg_id msg_abc = ''msg-1''" by (simp add: msg_abc_def)
  have f: "fst (forwarded msg_abc) = ''web:conv-abc''" by (simp add: forwarded_def msg_abc_def)
  have f': "fst (forwarded_skill msg_abc) = ''web:conv-abc''"
    by (simp add: forwarded_skill_def msg_abc_def)
  have twr: "trace ?wr = [Fetch (pending_request ?wc),
      CallOnChatMetadata ''web:conv-new'' ''2026-02-27T10:00:00.000Z'' (Some ''New'') ''web'' False,
      CallRegisterGroup ''web:conv-new''
        \<lparr>grp_name = ''New'', grp_folder = ''web-conv-new'', grp_trigger = [],
         grp_requiresTrigger = False, grp_added_at = ''2026-02-27T10:00:00.000Z''\<rparr>,
      Log Info ''WebChannel: registered conversation'']"
    by (simp add: do_fetch_def world_of_def host_main_def reg_new_def channel_test_def
        with_url_def opts_live_def io_test_def world_ops Let_def)
  have twm: "trace ?wm' = [Fetch (pending_request_skill ?ch),
      CallRegisterGroup ''web:conv-new''
        \<lparr>grp_name = ''New'', grp_folder = ''web-conv-new'', grp_trigger = ''web-conv-new'',
         grp_requiresTrigger = False, grp_added_at = ''2026-02-27T10:00:00.000Z''\<rparr>,
      Log Info ''WebChannel registered conversation'',
      CallOnChatMetadata ''web:conv-abc'' ''2026-02-27T10:00:00.000Z'' None ''web'' False,
      CallOnMessage ''web:conv-abc'' (snd (forwarded_skill msg_abc))]"
    by (simp add: batch_messages_def batch_def do_fetch_def world_of_def host_main_def
        reg_new_def channel_skill_test_def opts_live_def io_test_def world_ops Let_def
        msg_abc_def forwarded_skill_def)
  note th = known_registration_acknowledged_without_callback
              [OF a k c d e refl b k c d' e' refl refl]
  have A: "host_calls (trace (snd (snd (poll ?wc ?io ?w)))) =
     [CallOnChatMetadata ''web:conv-new'' ''2026-02-27T10:00:00.000Z'' (Some ''New'') ''web'' False,
      CallRegisterGroup ''web:conv-new''
        \<lparr>grp_name = ''New'', grp_folder = ''web-conv-new'', grp_trigger = [],
         grp_requiresTrigger = False, grp_added_at = ''2026-02-27T10:00:00.000Z''\<rparr>,
      CallOnMessage ''web:conv-abc'' (snd (forwarded msg_abc))]"
    using th[THEN conjunct1] unfolding twr t1 m by (simp add: f)
  have B: "requests_of (trace (snd (snd (poll ?wc ?io ?w)))) =
     [pending_request ?wc,
      post_request ?wc ''/api/internal/ack'' (Ack [''conv-abc'', ''conv-new''] [''msg-1''])]"
    using th[THEN conjunct2, THEN conjunct1] unfolding m by (simp add: t r rn mi)
  have C: "host_calls (trace (snd (poll_skill ?ch ?io ?w))) =
     [CallRegisterGroup ''web:conv-new''
        \<lparr>grp_name = ''New'', grp_folder = ''web-conv-new'', grp_trigger = ''web-conv-new'',
         grp_requiresTrigger = False, grp_added_at = ''2026-02-27T10:00:00.000Z''\<rparr>,
      CallOnChatMetadata ''web:conv-abc'' ''2026-02-27T10:00:00.000Z'' None ''web'' False,
      CallOnMessage ''web:conv-abc'' (snd (forwarded_skill msg_abc))]"
    using th[THEN conjunct2, THEN conjunct2, THEN conjunct1] unfolding twm v1 by simp
  have D: "\<exists>mids. requests_of (trace (snd (poll_skill ?ch ?io ?w))) =
     [pending_request_skill ?ch,
      request_of_skill ?ch ''POST'' ''/api/internal/ack''
        (Some (Ack [''conv-abc'', ''conv-new''] mids))]"
    using th[THEN conjunct2, THEN conjunct2, THEN conjunct2, THEN conjunct1] by (simp add: t r rn)
  have ds: "reg_conversationId reg_abc \<notin> reg_conversationId ` set ([] @ [reg_new])"
    by (simp add: reg_abc_def reg_new_def)
  have E: "\<forall>g. CallRegisterGroup ''web:conv-abc'' g \<notin> set (trace (snd (snd (poll ?wc ?io ?w))))"
    using th[THEN conjunct2, THEN conjunct2, THEN conjunct2, THEN conjunct2, THEN conjunct1] ds
    by (auto simp: t r)
  have F: "\<forall>g. CallRegisterGroup ''web:conv-abc'' g \<notin> set (trace (snd (poll_skill ?ch ?io ?w)))"
    using th[THEN conjunct2, THEN conjunct2, THEN conjunct2, THEN conjunct2, THEN conjunct2] ds
    by (auto simp: t r)
  from a b k e0 A B C D E F show ?thesis by blast
qed

subsection \<open>Disconnecting while a call is unfinished\<close>

text \<open>
  The parts into which the event loop cuts the methods compose to the methods: a part run
  as soon as the \<^verbatim>\<open>fetch\<close> before it has settled, with nothing in between, gives \<open>get\<close>,
  \<open>post\<close>, \<open>request_skill\<close>, \<open>connect_skill\<close>, \<open>poll\<close> and \<open>timer_callback_skill\<close>.
\<close>

lemma get_staged:
  "get this io path w =
     (get_settled path (fst (do_fetch io
         \<lparr>req_method = ''GET'', req_url = url (opts this) @ path, req_content_type = None,
          req_authorization = ''Bearer '' @ secret (opts this), req_body = None\<rparr> w)),
      snd (do_fetch io
         \<lparr>req_method = ''GET'', req_url = url (opts this) @ path, req_content_type = None,
          req_authorization = ''Bearer '' @ secret (opts this), req_body = None\<rparr> w))"
  by (simp add: get_def get_settled_def do_fetch_def
      split: fetch_result.splits response_body.splits)

lemma post_staged:
  "post this io path body w =
     (post_settled path (fst (do_fetch io (post_request this path body) w)),
      snd (do_fetch io (post_request this path body) w))"
  by (simp add: post_def post_settled_def post_request_def do_fetch_def
      split: fetch_result.splits)

lemma request_skill_staged:
  "request_skill this io method path body w =
     (request_settled method path (fst (do_fetch io (request_of_skill this method path body) w)),
      snd (do_fetch io (request_of_skill this method path body) w))"
  by (simp add: request_skill_def request_settled_def request_of_skill_def do_fetch_def
      split: fetch_result.splits response_body.splits)

lemma connect_skill_staged:
  "connect_skill this io w =
     (let (r, w1) = do_fetch io (request_of_skill this ''GET'' ''/api/health'' None) w;
          (this1, w2) = connect_after_request this r w1
      in (Inr (), this1, w2))"
  by (simp add: connect_skill_def request_skill_staged connect_after_request_def Let_def
      split: prod.splits sum.splits)

lemma poll_staged:
  "poll this io w =
     (let (r, w1) = do_fetch io (pending_request this) w
      in case poll_after_get this io r w1 of
           (None, this1, w2) \<Rightarrow> (Inr (), this1, w2)
         | (Some (AwaitAck r'), this1, w2) \<Rightarrow> (Inr (), poll_after_post this1 r' w2)
         | (Some _, this1, w2) \<Rightarrow> (Inr (), this1, w2))"
proof -
  obtain r w1 where f: "do_fetch io (pending_request this) w = (r, w1)" by fastforce
  have g: "get this io ''/api/internal/pending'' w = (get_settled ''/api/internal/pending'' r, w1)"
    using f by (simp add: get_staged pending_request_def)
  show ?thesis
  proof (cases "get_settled ''/api/internal/pending'' r")
    case (Inl e)
    then show ?thesis
      by (simp add: poll_def poll_try_def g f poll_after_get_def poll_catch_finally_def
          split: prod.splits)
  next
    case (Inr d)
    show ?thesis
    proof (cases d)
      case None
      then show ?thesis using Inr
        by (simp add: poll_def poll_try_def g f poll_after_get_def poll_catch_finally_def
            split: prod.splits)
    next
      case (Some data)
      obtain cids w2 where a: "poll_registrations (opts this) io
          (case registrations data of None \<Rightarrow> [] | Some rs \<Rightarrow> rs) [] w1 = (cids, w2)"
        by fastforce
      obtain mids w3 where b: "poll_messages (opts this)
          (case messages data of None \<Rightarrow> [] | Some ms \<Rightarrow> ms) [] w2 = (mids, w3)"
        by fastforce
      show ?thesis
      proof (cases "cids \<noteq> [] \<or> mids \<noteq> []")
        case True
        obtain r' w4 where k: "do_fetch io (post_request this ''/api/internal/ack''
            (Ack cids mids)) w3 = (r', w4)"
          by fastforce
        have h: "post this io ''/api/internal/ack'' (Ack cids mids) w3 =
                   (post_settled ''/api/internal/ack'' r', w4)"
          using k by (simp add: post_staged)
        show ?thesis using True Inr Some
          by (cases "post_settled ''/api/internal/ack'' r'")
             (simp_all add: poll_def poll_try_def g f a b h k poll_after_get_def
               poll_after_post_def poll_catch_finally_def split: prod.splits)
      next
        case False
        then show ?thesis using Inr Some
          by (simp add: poll_def poll_try_def g f a b poll_after_get_def
              poll_catch_finally_def split: prod.splits)
      qed
    qed
  qed
qed

lemma timer_callback_skill_staged:
  "timer_callback_skill this io w =
     (let (r, w1) = do_fetch io (pending_request_skill this) w
      in case poll_after_pending_skill this io r w1 of
           (None, this1, w2) \<Rightarrow> (Inr (), this1, w2)
         | (Some (AwaitAck r'), this1, w2) \<Rightarrow> (Inr (), poll_after_ack_skill this1 r' w2)
         | (Some _, this1, w2) \<Rightarrow> (Inr (), this1, w2))"
proof -
  obtain r w1 where f: "do_fetch io (pending_request_skill this) w = (r, w1)" by fastforce
  have g: "request_skill this io ''GET'' ''/api/internal/pending'' None w =
             (request_settled ''GET'' ''/api/internal/pending'' r, w1)"
    using f by (simp add: request_skill_staged pending_request_skill_def)
  show ?thesis
  proof (cases "request_settled ''GET'' ''/api/internal/pending'' r")
    case (Inl e)
    then show ?thesis
      by (simp add: timer_callback_skill_def poll_skill_def g f poll_after_pending_skill_def
          timer_catch_finally_def split: prod.splits)
  next
    case (Inr d)
    show ?thesis
    proof (cases d)
      case None
      then show ?thesis using Inr
        by (simp add: timer_callback_skill_def poll_skill_def g f poll_after_pending_skill_def
            timer_catch_finally_def split: prod.splits)
    next
      case (Some data)
      obtain cids w2 where a: "poll_registrations_skill (opts_skill this) io
          (registeredGroups (opts_skill this) (host w1))
          (case registrations data of None \<Rightarrow> [] | Some rs \<Rightarrow> rs) [] w1 = (cids, w2)"
        by fastforce
      obtain mids w3 where b: "poll_messages_skill (opts_skill this)
          (registeredGroups (opts_skill this) (host w2))
          (case messages data of None \<Rightarrow> [] | Some ms \<Rightarrow> ms) [] w2 = (mids, w3)"
        by fastforce
      show ?thesis
      proof (cases "mids \<noteq> [] \<or> cids \<noteq> []")
        case True
        obtain r' w4 where k: "do_fetch io (request_of_skill this ''POST'' ''/api/internal/ack''
            (Some (Ack cids mids))) w3 = (r', w4)"
          by fastforce
        have h: "request_skill this io ''POST'' ''/api/internal/ack''
                   (Some (Ack cids mids)) w3 =
                   (request_settled ''POST'' ''/api/internal/ack'' r', w4)"
          using k by (simp add: request_skill_staged)
        show ?thesis using True Inr Some
          by (cases "request_settled ''POST'' ''/api/internal/ack'' r'")
             (simp_all add: timer_callback_skill_def poll_skill_def g f a b h k
               poll_after_pending_skill_def poll_after_ack_skill_def timer_catch_finally_def
               split: prod.splits)
      next
        case False
        then show ?thesis using Inr Some
          by (simp add: timer_callback_skill_def poll_skill_def g f a b
              poll_after_pending_skill_def timer_catch_finally_def split: prod.splits)
      qed
    qed
  qed
qed


lemmas machine_defs =
  connect_def disconnect_def schedulePoll_def setTimeout_def clearTimeout_def logger_def
  do_fetch_def poll_after_get_def poll_after_post_def poll_catch_finally_def get_settled_def
  post_settled_def remove_nth_def io_recovering_def system_of_def world_of_def observe_def
  isConnected_def channel_test_def with_url_def opts_mock_def host_main_def batch_def
  msg_abc_def ok_def call_onMessage_def pending_request_def post_request_def Let_def
  forwarded_def

lemma web_run_observe:
  "map_option observe
     (run (io_recovering (batch [] [msg_abc])) (system_of (channel_test opts_mock) host_main)
        [Connect, TimerFires 0, Disconnect, Connect, Settles 0, Disconnect]) =
   Some (False, None, {1})"
  by (simp add: machine_defs)

lemma web_run_trace:
  "map_option (\<lambda>s. trace (wld s))
     (run (io_recovering (batch [] [msg_abc])) (system_of (channel_test opts_mock) host_main)
        [Connect, TimerFires 0, Disconnect, Connect, Settles 0, Disconnect,
         TimerFires 1, Settles 0, Settles 0]) =
   Some [SetTimeout 0 (Some 2000), Log Info ''WebChannel started polling'',
         Fetch (pending_request (channel_test opts_mock)),
         ClearTimeout 0,
         SetTimeout 1 (Some 2000), Log Info ''WebChannel started polling'',
         Log Warn ''WebChannel: poll error'', SetTimeout 2 (Some 2000),
         ClearTimeout 2,
         Fetch (pending_request (channel_test opts_mock)),
         CallOnMessage ''web:conv-abc'' (snd (forwarded msg_abc)),
         Fetch (post_request (channel_test opts_mock) ''/api/internal/ack''
                  (Ack [] [''msg-1'']))]"
  by (simp add: machine_defs)


lemmas machine_skill_defs =
  disconnect_skill_def schedulePoll_skill_def setTimeout_def clearTimeout_def logger_def
  do_fetch_def poll_after_pending_skill_def poll_after_ack_skill_def timer_catch_finally_def
  connect_after_request_def request_settled_def remove_nth_def io_recovering_def system_of_def
  world_of_def observe_skill_def isConnected_skill_def channel_skill_test_def opts_mock_def
  host_main_def batch_def msg_abc_def ok_def call_onMessage_def call_onChatMetadata_def
  pending_request_skill_def request_of_skill_def Let_def forwarded_skill_def

lemma skill_run_observe:
  "map_option observe_skill
     (run_skill (io_recovering (batch [] [msg_abc]))
        (system_of (channel_skill_test opts_mock) host_main)
        [Connect, Settles 0, TimerFires 0, Disconnect, Connect, Settles 1, Settles 0, Settles 0,
         Disconnect]) =
   Some (False, None, {1})"
  by (simp add: machine_skill_defs)

lemma skill_run_trace:
  "map_option (\<lambda>s. trace (wld s))
     (run_skill (io_recovering (batch [] [msg_abc]))
        (system_of (channel_skill_test opts_mock) host_main)
        [Connect, Settles 0, TimerFires 0, Disconnect, Connect, Settles 1, Settles 0, Settles 0,
         Disconnect, TimerFires 1, Settles 0, Settles 0]) =
   Some [Fetch (request_of_skill (channel_skill_test opts_mock) ''GET'' ''/api/health'' None),
         Log Warn ''claw-chat not reachable at startup, will retry on next poll'',
         SetTimeout 0 (Some 50),
         Fetch (pending_request_skill (channel_skill_test opts_mock)),
         ClearTimeout 0, Log Info ''WebChannel disconnected'',
         Fetch (request_of_skill (channel_skill_test opts_mock) ''GET'' ''/api/health'' None),
         Log Info ''WebChannel connected to claw-chat'', SetTimeout 1 (Some 50),
         CallOnChatMetadata ''web:conv-abc'' ''2026-02-27T10:00:00.000Z'' None ''web'' False,
         CallOnMessage ''web:conv-abc'' (snd (forwarded_skill msg_abc)),
         Fetch (request_of_skill (channel_skill_test opts_mock) ''POST'' ''/api/internal/ack''
                  (Some (Ack [] [''msg-1'']))),
         SetTimeout 2 (Some 50),
         ClearTimeout 2, Log Info ''WebChannel disconnected'',
         Fetch (pending_request_skill (channel_skill_test opts_mock)),
         CallOnChatMetadata ''web:conv-abc'' ''2026-02-27T10:00:00.000Z'' None ''web'' False,
         CallOnMessage ''web:conv-abc'' (snd (forwarded_skill msg_abc)),
         Fetch (request_of_skill (channel_skill_test opts_mock) ''POST'' ''/api/internal/ack''
                  (Some (Ack [] [''msg-1''])))]"
  by (simp add: machine_skill_defs)

lemma skill_probe_observe:
  "map_option observe_skill
     (run_skill (io_recovering (batch [] [msg_abc]))
        (system_of (channel_skill_test opts_mock) host_main)
        [Connect, Disconnect, Settles 0]) =
   Some (True, Some 0, {0})"
  by (simp add: machine_skill_defs)

lemma skill_probe_trace:
  "map_option (\<lambda>s. trace (wld s))
     (run_skill (io_recovering (batch [] [msg_abc]))
        (system_of (channel_skill_test opts_mock) host_main)
        [Connect, Disconnect, Settles 0, TimerFires 0, Settles 0, Settles 0]) =
   Some [Fetch (request_of_skill (channel_skill_test opts_mock) ''GET'' ''/api/health'' None),
         Log Info ''WebChannel disconnected'',
         Log Warn ''claw-chat not reachable at startup, will retry on next poll'',
         SetTimeout 0 (Some 50),
         Fetch (pending_request_skill (channel_skill_test opts_mock)),
         CallOnChatMetadata ''web:conv-abc'' ''2026-02-27T10:00:00.000Z'' None ''web'' False,
         CallOnMessage ''web:conv-abc'' (snd (forwarded_skill msg_abc)),
         Fetch (request_of_skill (channel_skill_test opts_mock) ''POST'' ''/api/internal/ack''
                  (Some (Ack [] [''msg-1'']))),
         SetTimeout 1 (Some 50)]"
  by (simp add: machine_skill_defs)


lemma disconnect_facts:
  "fst (disconnect this w) = Inr ()"
  "\<not> isConnected (fst (snd (disconnect this w)))"
  "pollTimer (fst (snd (disconnect this w))) = None"
  "armed (snd (snd (disconnect this w))) = armed w - set_option (pollTimer this)"
  by (simp_all add: disconnect_def isConnected_def clearTimeout_def Let_def split: option.splits)

lemma disconnect_skill_facts:
  "fst (disconnect_skill this w) = Inr ()"
  "\<not> isConnected_skill (fst (snd (disconnect_skill this w)))"
  "pollTimer_skill (fst (snd (disconnect_skill this w))) = None"
  "armed (snd (snd (disconnect_skill this w))) = armed w - set_option (pollTimer_skill this)"
  by (simp_all add: disconnect_skill_def isConnected_skill_def clearTimeout_def logger_def
      Let_def split: option.splits)

text \<open>
  C8. In both classes \<open>disconnect\<close> returns normally in every state (so also twice in a
  row and before any \<open>connect\<close>), sets the flag to false, empties the timer field and
  cancels the one timer that field held. It cancels no other timer, and what the
  specification says of it (no timer stays scheduled, no further polling occurs) fails in
  both classes on runs in which the host calls \<open>connect\<close> only while \<open>isConnected\<close> is
  false:

  \<^item> \<^verbatim>\<open>src/channels/web.ts\<close>: \<open>connect\<close>, timer 0 fires and \<open>poll\<close> awaits its \<open>get\<close>,
    \<open>disconnect\<close>, \<open>connect\<close> (arms timer 1), the \<open>get\<close> settles and the \<^verbatim>\<open>finally\<close> of
    \<open>poll\<close> arms timer 2 over timer 1 in the field, \<open>disconnect\<close> (cancels timer 2).
    The adapter is disconnected, its timer field is empty, and timer 1 is armed; when it
    fires, a whole poll runs after the last \<open>disconnect\<close>: the pending request, the
    message handed to the host, the acknowledgement.
  \<^item> the skill package, the same run with the health probe of each \<open>connect\<close> settling:
    the same outcome.
  \<^item> the skill package, \<open>connect\<close>, \<open>disconnect\<close> while the health probe is awaited, the
    probe settles: \<open>connect\<close> goes on to set \<^verbatim>\<open>this.connected = true\<close> and to arm timer 0.
    After \<open>disconnect\<close> returned, and with no \<open>connect\<close> called since, the adapter is
    connected and polls, and each poll schedules the next.
\<close>

theorem disconnect_cancels_only_the_tracked_timer:
  "fst (disconnect this w) = Inr () \<and>
   \<not> isConnected (fst (snd (disconnect this w))) \<and>
   pollTimer (fst (snd (disconnect this w))) = None \<and>
   armed (snd (snd (disconnect this w))) = armed w - set_option (pollTimer this) \<and>
   fst (disconnect_skill ch w) = Inr () \<and>
   \<not> isConnected_skill (fst (snd (disconnect_skill ch w))) \<and>
   pollTimer_skill (fst (snd (disconnect_skill ch w))) = None \<and>
   armed (snd (snd (disconnect_skill ch w))) = armed w - set_option (pollTimer_skill ch) \<and>
   map_option observe
     (run (io_recovering (batch [] [msg_abc])) (system_of (channel_test opts_mock) host_main)
        [Connect, TimerFires 0, Disconnect, Connect, Settles 0, Disconnect]) =
     Some (False, None, {1}) \<and>
   map_option (\<lambda>s. trace (wld s))
     (run (io_recovering (batch [] [msg_abc])) (system_of (channel_test opts_mock) host_main)
        [Connect, TimerFires 0, Disconnect, Connect, Settles 0, Disconnect,
         TimerFires 1, Settles 0, Settles 0]) =
     Some [SetTimeout 0 (Some 2000), Log Info ''WebChannel started polling'',
           Fetch (pending_request (channel_test opts_mock)),
           ClearTimeout 0,
           SetTimeout 1 (Some 2000), Log Info ''WebChannel started polling'',
           Log Warn ''WebChannel: poll error'', SetTimeout 2 (Some 2000),
           ClearTimeout 2,
           Fetch (pending_request (channel_test opts_mock)),
           CallOnMessage ''web:conv-abc'' (snd (forwarded msg_abc)),
           Fetch (post_request (channel_test opts_mock) ''/api/internal/ack''
                    (Ack [] [''msg-1'']))] \<and>
   map_option observe_skill
     (run_skill (io_recovering (batch [] [msg_abc]))
        (system_of (channel_skill_test opts_mock) host_main)
        [Connect, Settles 0, TimerFires 0, Disconnect, Connect, Settles 1, Settles 0, Settles 0,
         Disconnect]) =
     Some (False, None, {1}) \<and>
   map_option (\<lambda>s. trace (wld s))
     (run_skill (io_recovering (batch [] [msg_abc]))
        (system_of (channel_skill_test opts_mock) host_main)
        [Connect, Settles 0, TimerFires 0, Disconnect, Connect, Settles 1, Settles 0, Settles 0,
         Disconnect, TimerFires 1, Settles 0, Settles 0]) =
     Some [Fetch (request_of_skill (channel_skill_test opts_mock) ''GET'' ''/api/health'' None),
           Log Warn ''claw-chat not reachable at startup, will retry on next poll'',
           SetTimeout 0 (Some 50),
           Fetch (pending_request_skill (channel_skill_test opts_mock)),
           ClearTimeout 0, Log Info ''WebChannel disconnected'',
           Fetch (request_of_skill (channel_skill_test opts_mock) ''GET'' ''/api/health'' None),
           Log Info ''WebChannel connected to claw-chat'', SetTimeout 1 (Some 50),
           CallOnChatMetadata ''web:conv-abc'' ''2026-02-27T10:00:00.000Z'' None ''web'' False,
           CallOnMessage ''web:conv-abc'' (snd (forwarded_skill msg_abc)),
           Fetch (request_of_skill (channel_skill_test opts_mock) ''POST'' ''/api/internal/ack''
                    (Some (Ack [] [''msg-1'']))),
           SetTimeout 2 (Some 50),
           ClearTimeout 2, Log Info ''WebChannel disconnected'',
           Fetch (pending_request_skill (channel_skill_test opts_mock)),
           CallOnChatMetadata ''web:conv-abc'' ''2026-02-27T10:00:00.000Z'' None ''web'' False,
           CallOnMessage ''web:conv-abc'' (snd (forwarded_skill msg_abc)),
           Fetch (request_of_skill (channel_skill_test opts_mock) ''POST'' ''/api/internal/ack''
                    (Some (Ack [] [''msg-1''])))] \<and>
   map_option observe_skill
     (run_skill (io_recovering (batch [] [msg_abc]))
        (system_of (channel_skill_test opts_mock) host_main)
        [Connect, Disconnect, Settles 0]) =
     Some (True, Some 0, {0}) \<and>
   map_option (\<lambda>s. trace (wld s))
     (run_skill (io_recovering (batch [] [msg_abc]))
        (system_of (channel_skill_test opts_mock) host_main)
        [Connect, Disconnect, Settles 0, TimerFires 0, Settles 0, Settles 0]) =
     Some [Fetch (request_of_skill (channel_skill_test opts_mock) ''GET'' ''/api/health'' None),
           Log Info ''WebChannel disconnected'',
           Log Warn ''claw-chat not reachable at startup, will retry on next poll'',
           SetTimeout 0 (Some 50),
           Fetch (pending_request_skill (channel_skill_test opts_mock)),
           CallOnChatMetadata ''web:conv-abc'' ''2026-02-27T10:00:00.000Z'' None ''web'' False,
           CallOnMessage ''web:conv-abc'' (snd (forwarded_skill msg_abc)),
           Fetch (request_of_skill (channel_skill_test opts_mock) ''POST'' ''/api/internal/ack''
                    (Some (Ack [] [''msg-1'']))),
           SetTimeout 1 (Some 50)]"
  by (intro conjI disconnect_facts disconnect_skill_facts web_run_observe web_run_trace
      skill_run_observe skill_run_trace skill_probe_observe skill_probe_trace)

theorem disconnect_cancels_only_the_tracked_timer_witness:
  "fst (disconnect (channel_test opts_mock) (world_of host_main)) = Inr () \<and>
   fst (disconnect_skill (channel_skill_test opts_mock) (world_of host_main)) = Inr () \<and>
   map_option observe
     (run (io_recovering (batch [] [msg_abc])) (system_of (channel_test opts_mock) host_main)
        [Connect, TimerFires 0, Disconnect, Connect, Settles 0, Disconnect]) =
     Some (False, None, {1}) \<and>
   map_option observe_skill
     (run_skill (io_recovering (batch [] [msg_abc]))
        (system_of (channel_skill_test opts_mock) host_main)
        [Connect, Settles 0, TimerFires 0, Disconnect, Connect, Settles 1, Settles 0, Settles 0,
         Disconnect]) =
     Some (False, None, {1}) \<and>
   map_option observe_skill
     (run_skill (io_recovering (batch [] [msg_abc]))
        (system_of (channel_skill_test opts_mock) host_main)
        [Connect, Disconnect, Settles 0]) =
     Some (True, Some 0, {0})"
  using disconnect_cancels_only_the_tracked_timer
    [of "channel_test opts_mock" "world_of host_main" "channel_skill_test opts_mock"]
  by blast

end
